theory Spec2Isabelle
  imports Complex_Main
begin

chapter \<open>The notebook as functions\<close>

section \<open>Data loading\<close>

text \<open>
  The notebook \<^verbatim>\<open>Practica_Final_DL_NLP_MAM.ipynb\<close> is embedded cell by cell.
  Python floats are read as real numbers; the special values of IEEE arithmetic
  (\<open>nan\<close>, \<open>inf\<close>, \<open>-inf\<close>) are written out wherever the code can produce or
  compare them (division by a zero norm, the \<open>-inf\<close> sentinel), and a rounded operation
  whose rounding decides an outcome is a parameter (\<^verbatim>\<open>torch.mean\<close> in the correlation
  loss).  Exceptions are values of the type \<open>error\<close>.
\<close>

datatype error =
    AssertionError
  | FileNotFoundError
  | RuntimeError
  | IndexError
  | ValueError
  | ZeroDivisionError
  | TypeError

text \<open>One row of a sentence-pair table: the columns the notebook reads.\<close>

record row =
  sentence1 :: string
  sentence2 :: string
  score :: real

type_synonym dataset = "row list"

text \<open>
  What \<^verbatim>\<open>pd.read_csv\<close> returns: the column names of the file and its rows.  The rows
  are only read after the assertion on the column names has passed.
\<close>

record dataframe =
  columns :: "string list"
  rows :: "row list"

text \<open>
  What \<^verbatim>\<open>load_dataset("mteb/stsbenchmark-sts")\<close> returns: a dictionary of three
  splits.
\<close>

record dataset_dict =
  train :: dataset
  validation :: dataset
  test :: dataset

datatype loaded = DatasetDict dataset_dict | Dataset dataset

text \<open>
  \<^verbatim>\<open>normalize_labels\<close>, applied by \<^verbatim>\<open>dataset.map(..., batched=True)\<close>: every
  score is divided by \<open>5.0\<close>.
\<close>

definition normalize_labels :: "dataset \<Rightarrow> dataset" where
  "normalize_labels examples = map (\<lambda>r. r\<lparr>score := score r / 5\<rparr>) examples"

text \<open>The five technology examples built in the \<^verbatim>\<open>else\<close> branch.\<close>

definition example_data :: dataset where
  "example_data =
    [\<lparr>sentence1 = ''The new smartphone has a 120Hz display.'',
      sentence2 = ''This phone offers a smooth 120Hz screen.'', score = 48 / 10\<rparr>,
     \<lparr>sentence1 = ''AI algorithms improve processing speed.'',
      sentence2 = ''Machine learning boosts performance.'', score = 45 / 10\<rparr>,
     \<lparr>sentence1 = ''The laptop features a high-capacity SSD.'',
      sentence2 = ''The notebook includes a fast SSD drive.'', score = 47 / 10\<rparr>,
     \<lparr>sentence1 = ''Cloud computing enhances scalability.'',
      sentence2 = ''Cloud services improve flexibility.'', score = 46 / 10\<rparr>,
     \<lparr>sentence1 = ''Quantum computers solve complex problems.'',
      sentence2 = ''Traditional computers handle simple tasks.'', score = 2\<rparr>]"

text \<open>
  \<^verbatim>\<open>load_custom_dataset(csv_path=None)\<close>.  \<^verbatim>\<open>if csv_path:\<close> is Python truthiness:
  \<open>None\<close> and the empty string both take the \<^verbatim>\<open>else\<close> branch.  Reading the file is
  the parameter \<open>read_csv\<close>, which may itself fail.
\<close>

definition load_custom_dataset ::
  "(string \<Rightarrow> error + dataframe) \<Rightarrow> string option \<Rightarrow> error + dataset" where
  "load_custom_dataset read_csv csv_path =
    (case csv_path of
       Some (c # cs) \<Rightarrow>
         (case read_csv (c # cs) of
            Inl e \<Rightarrow> Inl e
          | Inr df \<Rightarrow>
              if list_all (\<lambda>col. col \<in> set (columns df)) [''sentence1'', ''sentence2'', ''score'']
              then Inr (normalize_labels (rows df))
              else Inl AssertionError)
     | _ \<Rightarrow> Inr (normalize_labels example_data))"

text \<open>
  The statement that ends the loading cell:
  \<^verbatim>\<open>dataset = load_dataset("mteb/stsbenchmark-sts") if csv_path is None else load_custom_dataset(csv_path)\<close>.
  The benchmark as downloaded is the parameter \<open>hub\<close>.
\<close>

definition loading_cell ::
  "dataset_dict \<Rightarrow> (string \<Rightarrow> error + dataframe) \<Rightarrow> string option \<Rightarrow> error + loaded" where
  "loading_cell hub read_csv csv_path =
    (case csv_path of
       None \<Rightarrow> Inr (DatasetDict hub)
     | Some p \<Rightarrow>
         (case load_custom_dataset read_csv (Some p) of
            Inl e \<Rightarrow> Inl e
          | Inr d \<Rightarrow> Inr (Dataset d)))"

text \<open>A benchmark with one training pair, of the highest score on the source scale.\<close>

definition sts_sample :: dataset_dict where
  "sts_sample =
     \<lparr>train = [\<lparr>sentence1 = ''A man is playing a guitar.'',
                sentence2 = ''A man plays the guitar.'', score = 5\<rparr>],
      validation = [], test = []\<rparr>"

section \<open>Floating-point values with the IEEE specials\<close>

text \<open>
  A Python or torch float that may be \<open>nan\<close> or infinite.  \<open>fdiv\<close> is true division of
  two finite numbers as torch performs it (no exception: \<open>0/0\<close> is \<open>nan\<close>, \<open>x/0\<close> is
  an infinity of the sign of \<open>x\<close>; the divisors of this notebook are norms and counts,
  so a zero divisor is \<open>+0.0\<close>).  \<open>fgt\<close> and \<open>fge\<close> are Python's \<open>>\<close> and \<open>>=\<close>:
  every comparison with \<open>nan\<close> is false.
\<close>

datatype pyfloat = NaN | NegInf | Fin real | PosInf

definition fdiv :: "real \<Rightarrow> real \<Rightarrow> pyfloat" where
  "fdiv a b =
    (if b = 0 then (if a = 0 then NaN else if 0 < a then PosInf else NegInf)
     else Fin (a / b))"

fun one_minus :: "pyfloat \<Rightarrow> pyfloat" where
  "one_minus NaN = NaN"
| "one_minus NegInf = PosInf"
| "one_minus (Fin c) = Fin (1 - c)"
| "one_minus PosInf = NegInf"

fun fadd :: "pyfloat \<Rightarrow> pyfloat \<Rightarrow> pyfloat" where
  "fadd NaN _ = NaN"
| "fadd _ NaN = NaN"
| "fadd (Fin a) (Fin b) = Fin (a + b)"
| "fadd PosInf NegInf = NaN"
| "fadd NegInf PosInf = NaN"
| "fadd PosInf _ = PosInf"
| "fadd _ PosInf = PosInf"
| "fadd NegInf _ = NegInf"
| "fadd _ NegInf = NegInf"

fun fgt :: "pyfloat \<Rightarrow> pyfloat \<Rightarrow> bool" where
  "fgt NaN _ = False"
| "fgt _ NaN = False"
| "fgt NegInf _ = False"
| "fgt _ NegInf = True"
| "fgt _ PosInf = False"
| "fgt PosInf _ = True"
| "fgt (Fin a) (Fin b) = (b < a)"

fun fge :: "pyfloat \<Rightarrow> pyfloat \<Rightarrow> bool" where
  "fge NaN _ = False"
| "fge _ NaN = False"
| "fge _ NegInf = True"
| "fge PosInf _ = True"
| "fge NegInf _ = False"
| "fge _ PosInf = False"
| "fge (Fin a) (Fin b) = (b \<le> a)"

text \<open>
  \<^verbatim>\<open>total_loss / len(train_loader)\<close>: a Python float divided by a Python int, which
  raises on a zero count.
\<close>

fun fdiv_count :: "pyfloat \<Rightarrow> nat \<Rightarrow> error + pyfloat" where
  "fdiv_count _ 0 = Inl ZeroDivisionError"
| "fdiv_count (Fin a) n = Inr (Fin (a / real n))"
| "fdiv_count x n = Inr x"

section \<open>Loss functions\<close>

text \<open>
  One-dimensional tensors are lists of their elements; a 0-dimensional tensor takes part
  in arithmetic as a one-element list.  \<open>broadcast\<close> is torch's rule for an elementwise
  operation on two such tensors: equal sizes, or one of them of size one, otherwise a
  \<^verbatim>\<open>RuntimeError\<close>.
\<close>

definition broadcast :: "real list \<Rightarrow> real list \<Rightarrow> error + (real list \<times> real list)" where
  "broadcast xs ys =
    (if length xs = length ys then Inr (xs, ys)
     else if length xs = 1 then Inr (replicate (length ys) (hd xs), ys)
     else if length ys = 1 then Inr (xs, replicate (length xs) (hd ys))
     else Inl RuntimeError)"

text \<open>
  \<^verbatim>\<open>pearson_correlation_loss(outputs, targets)\<close>, line by line.  \<^verbatim>\<open>torch.mean\<close> is a
  parameter: the tensors are float32, and the rounded mean of a constant vector need not
  be that constant, which decides whether the centred vector is exactly zero.  The other
  operations are read over the reals; on zeros they agree with float32 (a difference is
  zero only for equal operands, products, sums and the square root of zeros are zero,
  and \<open>0/0\<close> is \<open>nan\<close>).
\<close>

definition pearson_correlation_loss ::
  "(real list \<Rightarrow> real) \<Rightarrow> real list \<Rightarrow> real list \<Rightarrow> error + pyfloat" where
  "pearson_correlation_loss torch_mean outputs targets =
    (let outputs' = map (\<lambda>x. x - torch_mean outputs) outputs;
         targets' = map (\<lambda>x. x - torch_mean targets) targets;
         norm_outputs = sqrt (sum_list (map (\<lambda>x. x\<^sup>2) outputs'));
         norm_targets = sqrt (sum_list (map (\<lambda>x. x\<^sup>2) targets'))
     in case broadcast outputs' targets' of
          Inl e \<Rightarrow> Inl e
        | Inr (os, ts) \<Rightarrow>
            Inr (one_minus (fdiv (sum_list (map2 (*) os ts)) (norm_outputs * norm_targets))))"

text \<open>
  \<^verbatim>\<open>torch.nn.MSELoss()(outputs, labels)\<close> with its default reduction: the mean of the
  squared elementwise differences.
\<close>

definition MSELoss :: "real list \<Rightarrow> real list \<Rightarrow> error + pyfloat" where
  "MSELoss outputs targets =
    (case broadcast outputs targets of
       Inl e \<Rightarrow> Inl e
     | Inr (os, ts) \<Rightarrow>
         Inr (fdiv (sum_list (map2 (\<lambda>x y. (x - y)\<^sup>2) os ts)) (real (length os))))"

text \<open>
  The loss selection inside the batch loop of \<^verbatim>\<open>train_model\<close>:
  \<^verbatim>\<open>if model_type == "siamese": loss = pearson_correlation_loss(outputs, labels)\<close>
  \<^verbatim>\<open>else: loss = torch.nn.MSELoss()(outputs, labels)\<close>.
\<close>

definition batch_loss ::
  "(real list \<Rightarrow> real) \<Rightarrow> string \<Rightarrow> real list \<Rightarrow> real list \<Rightarrow> error + pyfloat" where
  "batch_loss torch_mean model_type outputs labels =
    (if model_type = ''siamese'' then pearson_correlation_loss torch_mean outputs labels
     else MSELoss outputs labels)"

subsection \<open>The statistics the specification names\<close>

text \<open>
  The Pearson correlation coefficient of two samples as statistics defines it, over the
  reals: with the arithmetic mean, the covariance divided by the product of the standard
  deviations, and undefined (\<open>nan\<close>) when one of the samples has zero variance.  The mean squared error is the mean of the
  squared differences.  These two definitions follow the specification's words; the
  loss functions above follow the code.
\<close>

definition arithmetic_mean :: "real list \<Rightarrow> real" where
  "arithmetic_mean xs = sum_list xs / real (length xs)"

definition covariance :: "real list \<Rightarrow> real list \<Rightarrow> real" where
  "covariance xs ys =
     sum_list (map2 (\<lambda>x y. (x - arithmetic_mean xs) * (y - arithmetic_mean ys)) xs ys) / real (length xs)"

definition std_deviation :: "real list \<Rightarrow> real" where
  "std_deviation xs = sqrt (covariance xs xs)"

definition pearson_correlation :: "real list \<Rightarrow> real list \<Rightarrow> pyfloat" where
  "pearson_correlation xs ys =
    (if std_deviation xs * std_deviation ys = 0 then NaN
     else Fin (covariance xs ys / (std_deviation xs * std_deviation ys)))"


section \<open>Evaluation and the training loop\<close>

text \<open>
  \<^verbatim>\<open>scipy.stats.pearsonr(preds, labels)\<close>, first component: it rejects samples of
  different length or of fewer than two points, returns \<open>nan\<close> (with a warning only) for
  a constant sample, and the correlation coefficient otherwise.
\<close>

definition pearsonr :: "real list \<Rightarrow> real list \<Rightarrow> error + pyfloat" where
  "pearsonr x y =
    (if length x \<noteq> length y then Inl ValueError
     else if length x < 2 then Inl ValueError
     else Inr (pearson_correlation x y))"

text \<open>
  What a scoring head returns after its final \<^verbatim>\<open>squeeze()\<close>: a 0-dimensional tensor
  or a vector.  \<^verbatim>\<open>preds.extend(outputs.cpu().numpy())\<close> iterates over the array, which
  a 0-dimensional array does not allow.
\<close>

datatype head_output = Scalar real | Vector "real list"

fun elements :: "head_output \<Rightarrow> real list" where
  "elements (Scalar x) = [x]"
| "elements (Vector xs) = xs"

fun preds_extend :: "real list \<Rightarrow> head_output \<Rightarrow> error + real list" where
  "preds_extend preds (Scalar x) = Inl TypeError"
| "preds_extend preds (Vector xs) = Inr (preds @ xs)"

text \<open>
  What the loop takes from outside: the forward pass of the model in a given parameter
  state \<open>'p\<close> on a batch \<open>'b\<close>, the labels of a batch, the effect of
  \<^verbatim>\<open>loss.backward(); optimizer.step(); scheduler.step()\<close> on the parameter state (the
  gradient depends on which loss was chosen, hence on the model type), and torch's
  float32 \<^verbatim>\<open>torch.mean\<close>.
\<close>

record ('p, 'b) collaborators =
  model_forward :: "'p \<Rightarrow> 'b \<Rightarrow> head_output"
  labels_of :: "'b \<Rightarrow> real list"
  optimizer_step :: "string \<Rightarrow> 'p \<Rightarrow> 'b \<Rightarrow> 'p"
  torch_mean :: "real list \<Rightarrow> real"

text \<open>\<^verbatim>\<open>evaluate_model(model, val_loader)\<close>: the loop over the batches, then \<^verbatim>\<open>pearsonr\<close>.\<close>

fun evaluate_batches ::
  "('p, 'b) collaborators \<Rightarrow> 'p \<Rightarrow> 'b list \<Rightarrow> real list \<times> real list
     \<Rightarrow> error + (real list \<times> real list)" where
  "evaluate_batches c model [] (preds, labels) = Inr (preds, labels)"
| "evaluate_batches c model (batch # rest) (preds, labels) =
    (case preds_extend preds (model_forward c model batch) of
       Inl e \<Rightarrow> Inl e
     | Inr preds' \<Rightarrow> evaluate_batches c model rest (preds', labels @ labels_of c batch))"

definition evaluate_model :: "('p, 'b) collaborators \<Rightarrow> 'p \<Rightarrow> 'b list \<Rightarrow> error + pyfloat" where
  "evaluate_model c model val_loader =
    (case evaluate_batches c model val_loader ([], []) of
       Inl e \<Rightarrow> Inl e
     | Inr (preds, labels) \<Rightarrow> pearsonr preds labels)"

text \<open>
  The variables of \<^verbatim>\<open>train_model\<close> that live across epochs, and the content of the file
  \<^verbatim>\<open>best_model_path\<close> (\<open>None\<close> when the file does not exist).
\<close>

record 'p train_state =
  model_state :: 'p
  history :: "(pyfloat \<times> pyfloat) list"
  best_pearson :: pyfloat
  best_model_file :: "'p option"

text \<open>The inner loop \<^verbatim>\<open>for batch in train_loader\<close>, carrying the model and \<^verbatim>\<open>total_loss\<close>.\<close>

fun train_batches ::
  "('p, 'b) collaborators \<Rightarrow> string \<Rightarrow> 'b list \<Rightarrow> 'p \<times> pyfloat \<Rightarrow> error + ('p \<times> pyfloat)" where
  "train_batches c model_type [] (model, total_loss) = Inr (model, total_loss)"
| "train_batches c model_type (batch # rest) (model, total_loss) =
    (case batch_loss (torch_mean c) model_type (elements (model_forward c model batch))
            (labels_of c batch) of
       Inl e \<Rightarrow> Inl e
     | Inr loss \<Rightarrow>
         train_batches c model_type rest
           (optimizer_step c model_type model batch, fadd total_loss loss))"

text \<open>
  The end of an epoch: \<^verbatim>\<open>if pearson_corr > best_pearson:\<close> update the best value and
  \<^verbatim>\<open>torch.save\<close> the current parameters.
\<close>

definition checkpoint_decision :: "'p train_state \<Rightarrow> pyfloat \<Rightarrow> 'p train_state" where
  "checkpoint_decision s pearson_corr =
    (if fgt pearson_corr (best_pearson s)
     then s\<lparr>best_pearson := pearson_corr, best_model_file := Some (model_state s)\<rparr>
     else s)"

text \<open>One iteration of \<^verbatim>\<open>for epoch in range(epochs)\<close>.\<close>

definition train_epoch ::
  "('p, 'b) collaborators \<Rightarrow> string \<Rightarrow> 'b list \<Rightarrow> 'b list \<Rightarrow> 'p train_state
     \<Rightarrow> error + 'p train_state" where
  "train_epoch c model_type batches val_loader s =
    (case train_batches c model_type batches (model_state s, Fin 0) of
       Inl e \<Rightarrow> Inl e
     | Inr (model, total_loss) \<Rightarrow>
         (case fdiv_count total_loss (length batches) of
            Inl e \<Rightarrow> Inl e
          | Inr avg_train_loss \<Rightarrow>
              (case evaluate_model c model val_loader of
                 Inl e \<Rightarrow> Inl e
               | Inr pearson_corr \<Rightarrow>
                   Inr (checkpoint_decision
                          (s\<lparr>model_state := model,
                             history := history s @ [(avg_train_loss, pearson_corr)]\<rparr>)
                          pearson_corr))))"

text \<open>
  The epoch loop.  The training loader shuffles, so the batches of an epoch are a
  function of the epoch index.
\<close>

fun epoch_loop ::
  "('p, 'b) collaborators \<Rightarrow> string \<Rightarrow> (nat \<Rightarrow> 'b list) \<Rightarrow> 'b list \<Rightarrow> nat list
     \<Rightarrow> 'p train_state \<Rightarrow> error + 'p train_state" where
  "epoch_loop c model_type train_loader val_loader [] s = Inr s"
| "epoch_loop c model_type train_loader val_loader (epoch # rest) s =
    (case train_epoch c model_type (train_loader epoch) val_loader s of
       Inl e \<Rightarrow> Inl e
     | Inr s' \<Rightarrow> epoch_loop c model_type train_loader val_loader rest s')"

text \<open>
  The state before the first epoch: \<^verbatim>\<open>history = []\<close>,
  \<^verbatim>\<open>best_pearson = -float("inf")\<close>, and whatever file is already at \<^verbatim>\<open>best_model_path\<close>.
\<close>

definition init_state :: "'p \<Rightarrow> 'p option \<Rightarrow> 'p train_state" where
  "init_state model file =
     \<lparr>model_state = model, history = [], best_pearson = NegInf, best_model_file = file\<rparr>"

text \<open>
  \<^verbatim>\<open>train_model\<close>: the loop, then \<^verbatim>\<open>model.load_state_dict(torch.load(best_model_path))\<close>,
  which fails when no file is there, and the returned \<^verbatim>\<open>history, best_pearson\<close> (together
  with the parameters now loaded in the model).
\<close>

definition train_model ::
  "('p, 'b) collaborators \<Rightarrow> 'p \<Rightarrow> (nat \<Rightarrow> 'b list) \<Rightarrow> 'b list \<Rightarrow> string \<Rightarrow> nat \<Rightarrow> 'p option
     \<Rightarrow> error + ('p \<times> (pyfloat \<times> pyfloat) list \<times> pyfloat)" where
  "train_model c model train_loader val_loader model_type epochs file =
    (case epoch_loop c model_type train_loader val_loader [0..<epochs] (init_state model file) of
       Inl e \<Rightarrow> Inl e
     | Inr s \<Rightarrow>
         (case best_model_file s of
            None \<Rightarrow> Inl FileNotFoundError
          | Some best \<Rightarrow> Inr (best, history s, best_pearson s)))"

text \<open>
  The invariant of the epoch loop: the best value is never \<open>nan\<close>, it bounds every
  recorded validation metric that is a number, and once it has left the sentinel the
  file holds parameters whose validation metric is exactly the best value.
\<close>

definition checkpoint_inv ::
  "('p, 'b) collaborators \<Rightarrow> 'b list \<Rightarrow> 'p train_state \<Rightarrow> bool" where
  "checkpoint_inv c val_loader s \<longleftrightarrow>
     best_pearson s \<noteq> NaN \<and>
     (\<forall>(l, m) \<in> set (history s). m \<noteq> NaN \<longrightarrow> fge (best_pearson s) m) \<and>
     (best_pearson s \<noteq> NegInf \<longrightarrow>
        (\<exists>p. best_model_file s = Some p \<and> evaluate_model c p val_loader = Inr (best_pearson s)))"

text \<open>
  A small concrete run: the parameter state counts the optimizer steps, a batch is its
  own label vector, the model predicts the labels exactly after one step and the
  constant 1 (a saturated sigmoid) in every other state, and means are exact (as they
  are in float32 for the vectors of small integers used with it).
\<close>

definition saturating :: "(nat, real list) collaborators" where
  "saturating =
     \<lparr>model_forward = (\<lambda>p b. if p = 1 then Vector b else Vector (map (\<lambda>_. 1) b)),
      labels_of = (\<lambda>b. b),
      optimizer_step = (\<lambda>model_type p b. p + 1),
      torch_mean = arithmetic_mean\<rparr>"


section \<open>The tokenizer calls\<close>

text \<open>
  The tokenizer is the transformers library's, not this repository's.  It is given by
  its special token ids and its subword function.
\<close>

record tokenizer =
  cls_token_id :: int
  sep_token_id :: int
  pad_token_id :: int
  tokenize :: "string \<Rightarrow> int list"

text \<open>
  An encoding: the dictionary with the keys \<^verbatim>\<open>input_ids\<close> and \<^verbatim>\<open>attention_mask\<close> that a
  tokenizer call returns.
\<close>

record feature =
  input_ids :: "int list"
  attention_mask :: "int list"

text \<open>The values of the \<^verbatim>\<open>padding\<close> argument the notebook passes: \<^verbatim>\<open>False\<close> and \<^verbatim>\<open>"max_length"\<close>.\<close>

datatype padding_strategy = DoNotPad | MaxLength

text \<open>
  Modelled from the spec: the tokenizer service truncates to the maximum length.  A call
  with \<^verbatim>\<open>truncation=True, max_length=n\<close> keeps at most \<open>n - 2\<close> subword ids between the
  two special tokens; this is the sentence's true token sequence.
\<close>

definition true_ids :: "tokenizer \<Rightarrow> string \<Rightarrow> nat \<Rightarrow> int list" where
  "true_ids tok text max_length =
     cls_token_id tok # take (max_length - 2) (tokenize tok text) @ [sep_token_id tok]"

text \<open>
  Modelled from the spec: the tokenizer service returns ids and a mask of ones of the
  true token length.  The library call also takes the \<^verbatim>\<open>padding\<close> argument:
  \<^verbatim>\<open>padding=False\<close> adds nothing, \<^verbatim>\<open>padding="max_length"\<close> pads the ids with the pad token
  and the mask with zeros up to \<^verbatim>\<open>max_length\<close>.  Both callers pass \<^verbatim>\<open>max_length=128\<close>.
\<close>

definition tokenizer_call :: "tokenizer \<Rightarrow> string \<Rightarrow> padding_strategy \<Rightarrow> nat \<Rightarrow> feature" where
  "tokenizer_call tok text padding max_length =
    (let ids = true_ids tok text max_length;
         difference = (case padding of DoNotPad \<Rightarrow> 0 | MaxLength \<Rightarrow> max_length - length ids)
     in \<lparr>input_ids = ids @ replicate difference (pad_token_id tok),
         attention_mask = replicate (length ids) 1 @ replicate difference 0\<rparr>)"

section \<open>The collator\<close>

text \<open>
  One item of \<^verbatim>\<open>STSDataset\<close> (the dictionary returned by \<^verbatim>\<open>__getitem__\<close>), the
  padded result of one call of the padding collator, and the batch dictionary.  The
  per-side feature dictionaries built by the collator have the keys of an encoding.
\<close>

record tokenized_pair =
  input_ids1 :: "int list"
  attention_mask1 :: "int list"
  input_ids2 :: "int list"
  attention_mask2 :: "int list"
  labels :: real

record padded =
  padded_input_ids :: "int list list"
  padded_attention_mask :: "int list list"

record batch =
  b_input_ids1 :: "int list list"
  b_attention_mask1 :: "int list list"
  b_input_ids2 :: "int list list"
  b_attention_mask2 :: "int list list"
  b_labels :: "real list"

text \<open>The longest \<^verbatim>\<open>input_ids\<close> of a list of features, and padding on the right.\<close>

definition longest :: "feature list \<Rightarrow> nat" where
  "longest features = fold max (map (\<lambda>f. length (input_ids f)) features) 0"

definition pad_right :: "nat \<Rightarrow> 'a \<Rightarrow> 'a list \<Rightarrow> 'a list" where
  "pad_right difference v xs = xs @ replicate difference v"

text \<open>
  Modelled from the spec: \<^verbatim>\<open>DataCollatorWithPadding\<close> is the transformers library's, not
  this repository's.  As the specification of the collator says, every sequence of the
  list is padded on the right to the longest \<^verbatim>\<open>input_ids\<close> of this list with the pad
  token id, and the attention mask is extended by as many zeros (the library's default
  padding strategy; its \<^verbatim>\<open>max_length\<close> argument plays no part in that strategy).  The
  library indexes the first feature, so an empty list is an \<^verbatim>\<open>IndexError\<close>, and stacking
  rows of unequal length into a tensor is a \<^verbatim>\<open>ValueError\<close>.
\<close>

definition padding_collator :: "int \<Rightarrow> feature list \<Rightarrow> error + padded" where
  "padding_collator pad_id features =
    (if features = [] then Inl IndexError
     else
       let max_length = longest features;
           ids = map (\<lambda>f. pad_right (max_length - length (input_ids f)) pad_id (input_ids f)) features;
           masks = map (\<lambda>f. pad_right (max_length - length (input_ids f)) 0 (attention_mask f)) features
       in if list_all (\<lambda>m. length m = max_length) masks
          then Inr \<lparr>padded_input_ids = ids, padded_attention_mask = masks\<rparr>
          else Inl ValueError)"

text \<open>
  \<^verbatim>\<open>CustomDataCollatorWithPadding.__call__\<close>.  The collator holds the tokenizer, whose
  pad token id the padding collator uses; the rounding of
  \<^verbatim>\<open>torch.tensor(labels, dtype=torch.float32)\<close> is a parameter.
\<close>

definition CustomDataCollatorWithPadding ::
  "tokenizer \<Rightarrow> (real \<Rightarrow> real) \<Rightarrow> tokenized_pair list \<Rightarrow> error + batch" where
  "CustomDataCollatorWithPadding tok float32 examples =
    (let features1 = map (\<lambda>ex. \<lparr>input_ids = input_ids1 ex, attention_mask = attention_mask1 ex\<rparr>) examples;
         features2 = map (\<lambda>ex. \<lparr>input_ids = input_ids2 ex, attention_mask = attention_mask2 ex\<rparr>) examples;
         labels_list = map labels examples
     in case padding_collator (pad_token_id tok) features1 of
          Inl e \<Rightarrow> Inl e
        | Inr batch1 \<Rightarrow>
            (case padding_collator (pad_token_id tok) features2 of
               Inl e \<Rightarrow> Inl e
             | Inr batch2 \<Rightarrow>
                 Inr \<lparr>b_input_ids1 = padded_input_ids batch1,
                      b_attention_mask1 = padded_attention_mask batch1,
                      b_input_ids2 = padded_input_ids batch2,
                      b_attention_mask2 = padded_attention_mask batch2,
                      b_labels = map float32 labels_list\<rparr>))"

text \<open>
  A tokenized pair as \<^verbatim>\<open>tokenize_function\<close> produces it: on each side the mask is as
  long as the ids and consists of ones.
\<close>

definition tokenized_ok :: "tokenized_pair \<Rightarrow> bool" where
  "tokenized_ok ex \<longleftrightarrow>
     length (attention_mask1 ex) = length (input_ids1 ex) \<and>
     length (attention_mask2 ex) = length (input_ids2 ex) \<and>
     list_all (\<lambda>m. m = 1) (attention_mask1 ex) \<and>
     list_all (\<lambda>m. m = 1) (attention_mask2 ex)"

text \<open>The batch-local maximum lengths of the two sides.\<close>

definition width1 :: "tokenized_pair list \<Rightarrow> nat" where
  "width1 examples = Max ((\<lambda>ex. length (input_ids1 ex)) ` set examples)"

definition width2 :: "tokenized_pair list \<Rightarrow> nat" where
  "width2 examples = Max ((\<lambda>ex. length (input_ids2 ex)) ` set examples)"

text \<open>A batch of three pairs with side-1 lengths 5, 12, 8 and side-2 lengths 3, 2, 4.\<close>

definition example_batch :: "tokenized_pair list" where
  "example_batch =
    [\<lparr>input_ids1 = [101, 7, 8, 9, 102], attention_mask1 = [1, 1, 1, 1, 1],
      input_ids2 = [101, 5, 102], attention_mask2 = [1, 1, 1], labels = 1\<rparr>,
     \<lparr>input_ids1 = [101, 7, 8, 9, 10, 11, 12, 13, 14, 15, 16, 102],
      attention_mask1 = [1, 1, 1, 1, 1, 1, 1, 1, 1, 1, 1, 1],
      input_ids2 = [101, 102], attention_mask2 = [1, 1], labels = 0\<rparr>,
     \<lparr>input_ids1 = [101, 7, 8, 9, 10, 11, 12, 102], attention_mask1 = [1, 1, 1, 1, 1, 1, 1, 1],
      input_ids2 = [101, 5, 6, 102], attention_mask2 = [1, 1, 1, 1], labels = 1 / 2\<rparr>]"

section \<open>The encoder freeze policy\<close>

text \<open>
  A parameter tensor with its \<^verbatim>\<open>requires_grad\<close> flag, and the parts of the encoder
  returned by \<^verbatim>\<open>AutoModel.from_pretrained\<close> that the constructors touch or leave alone:
  \<^verbatim>\<open>bert.embeddings\<close>, the list \<^verbatim>\<open>bert.encoder.layer\<close> and \<^verbatim>\<open>bert.pooler\<close>.
\<close>

record 'w parameter =
  data :: 'w
  requires_grad :: bool

record 'w bert_model =
  embeddings :: "'w parameter list"
  encoder_layer :: "'w parameter list list"
  pooler :: "'w parameter list"

text \<open>The three model classes and what an instance holds.\<close>

datatype model_class = SentenceSimilarityModelOne | SiameseBERT | CrossAttentionModel


record 'w similarity_model =
  class_of :: model_class
  bert :: "'w bert_model"
  attention :: "'w parameter list"
  regressor :: "'w parameter list"

text \<open>\<^verbatim>\<open>for p in param.parameters(): p.requires_grad = False\<close>.\<close>

definition freeze_parameters :: "'w parameter list \<Rightarrow> 'w parameter list" where
  "freeze_parameters layer = map (\<lambda>p. p\<lparr>requires_grad := False\<rparr>) layer"

text \<open>
  The loop that each of the three constructors runs over \<^verbatim>\<open>enumerate(self.bert.encoder.layer)\<close>:
  layer \<open>i\<close> is frozen when \<^verbatim>\<open>i < len(self.bert.encoder.layer) - freeze_layers\<close>, a
  comparison of Python integers.
\<close>

definition freeze_lower_layers :: "int \<Rightarrow> 'w bert_model \<Rightarrow> 'w bert_model" where
  "freeze_lower_layers freeze_layers b =
     b\<lparr>encoder_layer :=
         map (\<lambda>(i, layer).
                if int i < int (length (encoder_layer b)) - freeze_layers
                then freeze_parameters layer else layer)
             (enumerate 0 (encoder_layer b))\<rparr>"

text \<open>
  The three \<^verbatim>\<open>__init__\<close> methods.  The pretrained encoder and the freshly created head
  modules (whose parameters are trainable) are arguments; \<open>freeze_layers\<close> defaults to
  2, 0 and 2 in the three classes.
\<close>

definition SentenceSimilarityModelOne_init ::
  "'w bert_model \<Rightarrow> 'w parameter list \<Rightarrow> int \<Rightarrow> 'w similarity_model" where
  "SentenceSimilarityModelOne_init pretrained new_regressor freeze_layers =
     \<lparr>class_of = SentenceSimilarityModelOne,
      bert = freeze_lower_layers freeze_layers pretrained,
      attention = [],
      regressor = new_regressor\<rparr>"

definition SiameseBERT_init ::
  "'w bert_model \<Rightarrow> 'w parameter list \<Rightarrow> int \<Rightarrow> 'w similarity_model" where
  "SiameseBERT_init pretrained new_regressor freeze_layers =
     \<lparr>class_of = SiameseBERT,
      bert = freeze_lower_layers freeze_layers pretrained,
      attention = [],
      regressor = new_regressor\<rparr>"

definition CrossAttentionModel_init ::
  "'w bert_model \<Rightarrow> 'w parameter list \<Rightarrow> 'w parameter list \<Rightarrow> int \<Rightarrow> 'w similarity_model" where
  "CrossAttentionModel_init pretrained new_attention new_regressor freeze_layers =
     \<lparr>class_of = CrossAttentionModel,
      bert = freeze_lower_layers freeze_layers pretrained,
      attention = new_attention,
      regressor = new_regressor\<rparr>"

text \<open>
  The freeze policy as the specification words it: a function from the layer count and
  the freeze depth to the set of trainable layer indices.
\<close>

definition trainable_layer_indices :: "nat \<Rightarrow> int \<Rightarrow> nat set" where
  "trainable_layer_indices N f = set (filter (\<lambda>i. int N - f \<le> int i) [0..<N])"

text \<open>A layer is trainable (frozen) when all its parameters are (are not) trainable.\<close>

definition layer_trainable :: "'w parameter list \<Rightarrow> bool" where
  "layer_trainable layer = list_all requires_grad layer"

definition layer_frozen :: "'w parameter list \<Rightarrow> bool" where
  "layer_frozen layer = list_all (\<lambda>p. \<not> requires_grad p) layer"

text \<open>An encoder of six layers as loaded, every parameter trainable.\<close>

definition six_layers :: "nat bert_model" where
  "six_layers =
     \<lparr>embeddings = [\<lparr>data = 0, requires_grad = True\<rparr>],
      encoder_layer = map (\<lambda>k. [\<lparr>data = k, requires_grad = True\<rparr>]) [1, 2, 3, 4, 5, 6],
      pooler = [\<lparr>data = 7, requires_grad = True\<rparr>]\<rparr>"

section \<open>Masked mean pooling\<close>

text \<open>
  The pooling lines of \<^verbatim>\<open>CrossAttentionModel.forward\<close> for one example of the batch:
  \<^verbatim>\<open>(output1 * mask1).sum(dim=1) / mask1.sum(dim=1)\<close>, where \<open>hidden\<close> is the example's
  \<open>L \<times> D\<close> matrix of hidden states (every row of length \<open>D\<close>) and \<open>mask1\<close> its
  attention mask of length \<open>L\<close>, expanded along the hidden dimension.  The encoder call
  just before has already required ids and mask of one shape; a mask that cannot be
  expanded to the hidden states is a \<^verbatim>\<open>RuntimeError\<close>.  The division is torch's: no
  exception on a zero divisor.
\<close>

definition masked_mean :: "nat \<Rightarrow> real list list \<Rightarrow> int list \<Rightarrow> error + pyfloat list" where
  "masked_mean D hidden mask1 =
    (if length mask1 \<noteq> length hidden then Inl RuntimeError
     else Inr (map (\<lambda>d. fdiv (sum_list (map2 (\<lambda>h m. h ! d * real_of_int m) hidden mask1))
                             (real_of_int (sum_list mask1)))
                   [0..<D]))"

text \<open>The same lines over the whole batch.\<close>

fun masked_mean_batch ::
  "nat \<Rightarrow> real list list list \<Rightarrow> int list list \<Rightarrow> error + pyfloat list list" where
  "masked_mean_batch D [] [] = Inr []"
| "masked_mean_batch D (hidden # hs) (mask1 # ms) =
    (case masked_mean D hidden mask1 of
       Inl e \<Rightarrow> Inl e
     | Inr pooled \<Rightarrow>
         (case masked_mean_batch D hs ms of
            Inl e \<Rightarrow> Inl e
          | Inr rest \<Rightarrow> Inr (pooled # rest)))"
| "masked_mean_batch D _ _ = Inl RuntimeError"

section \<open>Dataset preprocessing\<close>

text \<open>
  \<^verbatim>\<open>tokenize_function\<close>, mapped over the rows by \<^verbatim>\<open>dataset.map(..., batched=True)\<close>: two
  calls with \<^verbatim>\<open>padding=False\<close>.  The score is carried along and is what \<^verbatim>\<open>STSDataset\<close>
  hands out under the key \<^verbatim>\<open>labels\<close>.
\<close>

definition tokenize_function :: "tokenizer \<Rightarrow> dataset \<Rightarrow> tokenized_pair list" where
  "tokenize_function tok examples =
     map (\<lambda>r. let encodings1 = tokenizer_call tok (sentence1 r) DoNotPad 128;
                   encodings2 = tokenizer_call tok (sentence2 r) DoNotPad 128
               in \<lparr>input_ids1 = input_ids encodings1,
                   attention_mask1 = attention_mask encodings1,
                   input_ids2 = input_ids encodings2,
                   attention_mask2 = attention_mask encodings2,
                   labels = score r\<rparr>) examples"

section \<open>Inference\<close>

text \<open>
  The last module of each regressor: \<^verbatim>\<open>torch.nn.Sigmoid()\<close> in
  \<^verbatim>\<open>SentenceSimilarityModelOne\<close> and \<^verbatim>\<open>CrossAttentionModel\<close>, nothing after the last
  linear layer in \<^verbatim>\<open>SiameseBERT\<close>.
\<close>

definition sigmoid :: "real \<Rightarrow> real" where
  "sigmoid z = 1 / (1 + exp (- z))"

definition final_activation :: "model_class \<Rightarrow> real \<Rightarrow> real" where
  "final_activation cls z = (if cls = SiameseBERT then z else sigmoid z)"

text \<open>
  The end of \<^verbatim>\<open>infer_similarity\<close>: \<^verbatim>\<open>if isinstance(model, SiameseBERT):\<close>
  \<^verbatim>\<open>similarity = torch.tanh(similarity) * 2.5 + 2.5\<close>, \<^verbatim>\<open>else: similarity = similarity * 5\<close>.
\<close>

definition rescale :: "model_class \<Rightarrow> real \<Rightarrow> real" where
  "rescale cls similarity =
     (if cls = SiameseBERT then tanh similarity * 2.5 + 2.5 else similarity * 5)"

text \<open>\<^verbatim>\<open>similarity.item()\<close>: defined for a tensor of exactly one element.\<close>

fun item :: "head_output \<Rightarrow> error + real" where
  "item (Scalar x) = Inr x"
| "item (Vector [x]) = Inr x"
| "item (Vector _) = Inl RuntimeError"

fun map_output :: "(real \<Rightarrow> real) \<Rightarrow> head_output \<Rightarrow> head_output" where
  "map_output f (Scalar x) = Scalar (f x)"
| "map_output f (Vector xs) = Vector (map f xs)"

text \<open>
  \<^verbatim>\<open>infer_similarity(model, tokenizer, sentence1, sentence2)\<close>: both sentences are
  tokenized with \<^verbatim>\<open>padding="max_length"\<close>, the model (its class and its forward pass on
  the two encodings) is applied, and the output is rescaled.
\<close>

definition infer_similarity ::
  "model_class \<Rightarrow> (feature \<Rightarrow> feature \<Rightarrow> head_output) \<Rightarrow> tokenizer \<Rightarrow> string \<Rightarrow> string
     \<Rightarrow> error + real" where
  "infer_similarity cls model tok sentence1' sentence2' =
    (let encoded1 = tokenizer_call tok sentence1' MaxLength 128;
         encoded2 = tokenizer_call tok sentence2' MaxLength 128;
         similarity = model encoded1 encoded2
     in item (map_output (rescale cls) similarity))"

text \<open>A tokenizer for which every sentence is a single subword.\<close>

definition one_word :: tokenizer where
  "one_word = \<lparr>cls_token_id = 101, sep_token_id = 102, pad_token_id = 0,
               tokenize = (\<lambda>text. [7])\<rparr>"

section \<open>The forward passes on tensor shapes\<close>

text \<open>
  The forward passes are followed on the shapes of the tensors: a shape is the list of
  dimension sizes, \<open>[]\<close> for a 0-dimensional tensor (a \<open>Scalar\<close> head output) and
  \<open>[B]\<close> for a vector (a \<open>Vector\<close> head output).  Each torch operation of a forward
  pass is a function on shapes that fails where torch raises.
\<close>

type_synonym shape = "nat list"

definition and_then :: "error + 'a \<Rightarrow> ('a \<Rightarrow> error + 'b) \<Rightarrow> error + 'b" where
  "and_then r f = (case r of Inl e \<Rightarrow> Inl e | Inr x \<Rightarrow> f x)"

text \<open>
  \<^verbatim>\<open>squeeze()\<close> removes every dimension of size 1; \<^verbatim>\<open>squeeze(k)\<close> removes dimension
  \<open>k\<close> if its size is 1; \<^verbatim>\<open>unsqueeze(k)\<close> inserts a dimension of size 1 at \<open>k\<close>
  (\<^verbatim>\<open>unsqueeze(-1)\<close> is \<open>k = length s\<close>); \<^verbatim>\<open>expand_as\<close> may only stretch dimensions of
  size 1.
\<close>

definition squeeze :: "shape \<Rightarrow> shape" where
  "squeeze s = filter (\<lambda>d. d \<noteq> 1) s"

definition squeeze_dim :: "nat \<Rightarrow> shape \<Rightarrow> shape" where
  "squeeze_dim k s = (if k < length s \<and> s ! k = 1 then take k s @ drop (Suc k) s else s)"

definition unsqueeze :: "nat \<Rightarrow> shape \<Rightarrow> shape" where
  "unsqueeze k s = take k s @ 1 # drop k s"

definition expand_as :: "shape \<Rightarrow> shape \<Rightarrow> error + shape" where
  "expand_as s target =
    (if length s = length target \<and> list_all2 (\<lambda>d t. d = t \<or> d = 1) s target
     then Inr target else Inl RuntimeError)"

text \<open>
  The shape of an elementwise operation (\<^verbatim>\<open>-\<close>, \<^verbatim>\<open>*\<close>, \<^verbatim>\<open>/\<close>, \<^verbatim>\<open>torch.abs\<close> of a
  difference): torch's broadcasting, which aligns the shapes at their last dimension.
\<close>

fun broadcast_rev :: "shape \<Rightarrow> shape \<Rightarrow> error + shape" where
  "broadcast_rev [] ys = Inr ys"
| "broadcast_rev xs [] = Inr xs"
| "broadcast_rev (x # xs) (y # ys) =
    (if x = y \<or> y = 1 then and_then (broadcast_rev xs ys) (\<lambda>r. Inr (x # r))
     else if x = 1 then and_then (broadcast_rev xs ys) (\<lambda>r. Inr (y # r))
     else Inl RuntimeError)"

definition elementwise :: "shape \<Rightarrow> shape \<Rightarrow> error + shape" where
  "elementwise a b = and_then (broadcast_rev (rev a) (rev b)) (\<lambda>r. Inr (rev r))"

text \<open>\<^verbatim>\<open>.sum(dim=1)\<close>, \<^verbatim>\<open>torch.cat([a, b], dim=1)\<close> and \<^verbatim>\<open>torch.nn.Linear\<close>.\<close>

definition sum_dim1 :: "shape \<Rightarrow> error + shape" where
  "sum_dim1 s = (if 1 < length s then Inr (hd s # drop 2 s) else Inl IndexError)"

definition cat_dim1 :: "shape \<Rightarrow> shape \<Rightarrow> error + shape" where
  "cat_dim1 a b =
    (if 1 < length a \<and> length a = length b \<and> a[1 := 0] = b[1 := 0]
     then Inr (a[1 := a ! 1 + b ! 1]) else Inl RuntimeError)"

definition Linear :: "nat \<Rightarrow> nat \<Rightarrow> shape \<Rightarrow> error + shape" where
  "Linear in_features out_features s =
    (if s \<noteq> [] \<and> last s = in_features then Inr (butlast s @ [out_features])
     else Inl RuntimeError)"

text \<open>
  The encoder call \<^verbatim>\<open>self.bert(input_ids, attention_mask=attention_mask).last_hidden_state\<close>
  on a batch of \<open>B\<close> sequences of length \<open>L\<close> has shape \<open>[B, L, hidden_size]\<close>;
  \<^verbatim>\<open>[:, 0, :]\<close> selects the first token; \<^verbatim>\<open>torch.nn.MultiheadAttention\<close> (sequence
  first) returns an output of the shape of the query.
\<close>

definition last_hidden_state :: "nat \<Rightarrow> shape \<Rightarrow> shape \<Rightarrow> error + shape" where
  "last_hidden_state hidden_size input_ids' attention_mask' =
    (if length input_ids' = 2 \<and> attention_mask' = input_ids'
     then Inr (input_ids' @ [hidden_size]) else Inl RuntimeError)"

definition first_token :: "shape \<Rightarrow> error + shape" where
  "first_token s =
    (case s of
       [b, l, d] \<Rightarrow> if l = 0 then Inl IndexError else Inr [b, d]
     | _ \<Rightarrow> Inl IndexError)"

definition MultiheadAttention :: "nat \<Rightarrow> shape \<Rightarrow> shape \<Rightarrow> shape \<Rightarrow> error + shape" where
  "MultiheadAttention embed_dim query key value' =
    (case (query, key) of
       ([l, n, e], [s, n', e']) \<Rightarrow>
         if e = embed_dim \<and> e' = embed_dim \<and> n = n' \<and> value' = key then Inr [l, n, e]
         else Inl RuntimeError
     | _ \<Rightarrow> Inl RuntimeError)"

text \<open>
  The regressors \<^verbatim>\<open>Sequential(Linear(in, 256), ReLU(), Linear(256, 1), Sigmoid())\<close> and,
  for the Siamese model, the same without the sigmoid; activations keep the shape.
\<close>

definition regressor_sigmoid :: "nat \<Rightarrow> shape \<Rightarrow> error + shape" where
  "regressor_sigmoid in_features s =
     and_then (Linear in_features 256 s) (\<lambda>h. Linear 256 1 h)"

definition regressor_plain :: "nat \<Rightarrow> shape \<Rightarrow> error + shape" where
  "regressor_plain in_features s =
     and_then (Linear in_features 256 s) (\<lambda>h. Linear 256 1 h)"

text \<open>
  The three \<^verbatim>\<open>forward\<close> methods, statement by statement.  The concatenation of three
  tensors in \<^verbatim>\<open>SiameseBERT.forward\<close> is two concatenations.
\<close>

definition SentenceSimilarityModelOne_forward ::
  "nat \<Rightarrow> shape \<Rightarrow> shape \<Rightarrow> shape \<Rightarrow> shape \<Rightarrow> error + shape" where
  "SentenceSimilarityModelOne_forward hidden_size input_ids1' attention_mask1' input_ids2' attention_mask2' =
     and_then (and_then (last_hidden_state hidden_size input_ids1' attention_mask1') first_token) (\<lambda>output1.
     and_then (and_then (last_hidden_state hidden_size input_ids2' attention_mask2') first_token) (\<lambda>output2.
     and_then (cat_dim1 output1 output2) (\<lambda>combined.
     and_then (regressor_sigmoid (384 * 2) combined) (\<lambda>r. Inr (squeeze r)))))"

definition SiameseBERT_forward ::
  "nat \<Rightarrow> shape \<Rightarrow> shape \<Rightarrow> shape \<Rightarrow> shape \<Rightarrow> error + shape" where
  "SiameseBERT_forward hidden_size input_ids1' attention_mask1' input_ids2' attention_mask2' =
     and_then (and_then (last_hidden_state hidden_size input_ids1' attention_mask1') first_token) (\<lambda>output1.
     and_then (and_then (last_hidden_state hidden_size input_ids2' attention_mask2') first_token) (\<lambda>output2.
     and_then (elementwise output1 output2) (\<lambda>diff.
     and_then (elementwise output1 output2) (\<lambda>mult.
     and_then (and_then (cat_dim1 diff mult) (\<lambda>dm. cat_dim1 dm output1)) (\<lambda>combined.
     and_then (regressor_plain (384 * 3) combined) (\<lambda>r. Inr (squeeze r)))))))"

definition pooled :: "nat \<Rightarrow> shape \<Rightarrow> shape \<Rightarrow> error + shape" where
  "pooled hidden_size input_ids' attention_mask' =
     and_then (last_hidden_state hidden_size input_ids' attention_mask') (\<lambda>output.
     and_then (expand_as (unsqueeze (length attention_mask') attention_mask') output) (\<lambda>mask'.
     and_then (and_then (elementwise output mask') sum_dim1) (\<lambda>numerator.
     and_then (sum_dim1 mask') (\<lambda>denominator.
     elementwise numerator denominator))))"

definition CrossAttentionModel_forward ::
  "nat \<Rightarrow> shape \<Rightarrow> shape \<Rightarrow> shape \<Rightarrow> shape \<Rightarrow> error + shape" where
  "CrossAttentionModel_forward hidden_size input_ids1' attention_mask1' input_ids2' attention_mask2' =
     and_then (pooled hidden_size input_ids1' attention_mask1') (\<lambda>p1.
     and_then (pooled hidden_size input_ids2' attention_mask2') (\<lambda>p2.
     (let output1 = unsqueeze 0 p1; output2 = unsqueeze 0 p2 in
      and_then (MultiheadAttention 384 output1 output2 output2) (\<lambda>attn.
      (let attn_output = squeeze_dim 0 attn in
       and_then (cat_dim1 (squeeze_dim 0 output1) attn_output) (\<lambda>combined.
       and_then (regressor_sigmoid (384 * 2) combined) (\<lambda>r. Inr (squeeze r))))))))"

chapter \<open>Properties\<close>

section \<open>Properties of data loading\<close>

lemma normalize_labels_score:
  "map score (normalize_labels ds) = map (\<lambda>r. score r / 5) ds"
  by (simp add: normalize_labels_def comp_def)

lemma load_custom_dataset_normalizes:
  "load_custom_dataset read_csv csv_path = Inr d \<Longrightarrow>
     \<exists>src. d = normalize_labels src"
  unfolding load_custom_dataset_def
  by (auto split: option.splits list.splits sum.splits if_splits)

text \<open>
  Claim C1 (labels are stored as score / 5, within [0, 1], for the default benchmark
  source and for a custom CSV).  The custom path normalizes (lemma above), but the
  loading cell run with the notebook's own setting \<open>csv_path = None\<close> takes the benchmark
  as downloaded and never calls \<^verbatim>\<open>normalize_labels\<close>: the pair of score 5 reaches the
  tokenized dataset with the label 5, which is neither 5 / 5 nor within [0, 1].
\<close>

theorem loading_cell_default_keeps_raw_scores:
  "loading_cell hub read_csv None = Inr (DatasetDict hub) \<and>
   loading_cell sts_sample read_csv None = Inr (DatasetDict sts_sample) \<and>
   map labels (tokenize_function tok (train sts_sample)) = [5] \<and>
   map labels (tokenize_function tok (train sts_sample)) \<noteq> map (\<lambda>r. score r / 5) (train sts_sample) \<and>
   \<not> list_all (\<lambda>l. 0 \<le> l \<and> l \<le> 1) (map labels (tokenize_function tok (train sts_sample)))"
  by (simp add: loading_cell_def sts_sample_def tokenize_function_def Let_def)

section \<open>Properties of the loss functions\<close>

lemma map2_center:
  "map2 (*) (map (\<lambda>x. x - a) xs) (map (\<lambda>y. y - b) ys) = map2 (\<lambda>x y. (x - a) * (y - b)) xs ys"
  by (induction xs ys rule: list_induct2') auto

lemma sq_center:
  "sum_list (map (\<lambda>x. x\<^sup>2) (map (\<lambda>x. x - a) xs))
     = sum_list (map2 (\<lambda>x y. (x - a) * (y - (a::real))) xs xs)"
  by (induction xs) (simp_all add: power2_eq_square)

lemma sum_sq_nonneg: "0 \<le> sum_list (map2 (\<lambda>x y. (x - a) * (y - (a::real))) xs xs)" (is "0 \<le> ?s")
proof -
  have "?s = sum_list (map (\<lambda>x. (x - a)\<^sup>2) xs)"
    by (induction xs) (auto simp: power2_eq_square)
  also have "0 \<le> \<dots>" by (rule sum_list_nonneg) auto
  finally show ?thesis .
qed

lemma sum_sq_zero:
  "sum_list (map2 (\<lambda>x y. (x - a) * (y - a)) xs xs) = 0 \<Longrightarrow> \<forall>x\<in>set xs. x = (a::real)"
proof (induction xs)
  case Nil
  then show ?case by simp
next
  case (Cons x xs)
  have "0 \<le> (x - a) * (x - a)" by simp
  moreover have "0 \<le> sum_list (map2 (\<lambda>x y. (x - a) * (y - a)) xs xs)" by (rule sum_sq_nonneg)
  ultimately have "(x - a) * (x - a) = 0" "sum_list (map2 (\<lambda>x y. (x - a) * (y - a)) xs xs) = 0"
    using Cons.prems by (simp_all add: add_nonneg_eq_0_iff)
  with Cons.IH show ?case by simp
qed

lemma sum_prod_zero_left:
  assumes "sum_list (map2 (\<lambda>x y. (x - a) * (y - a)) xs xs) = 0" "length xs = length ys"
  shows "sum_list (map2 (\<lambda>x y. (x - a) * (y - b)) xs ys) = (0::real)"
proof -
  have "\<forall>x\<in>set xs. x = a" using assms(1) by (rule sum_sq_zero)
  then show ?thesis using assms(2)
    by (induction xs ys rule: list_induct2') auto
qed

lemma sum_prod_zero_right:
  assumes "sum_list (map2 (\<lambda>x y. (x - b) * (y - b)) ys ys) = 0" "length xs = length ys"
  shows "sum_list (map2 (\<lambda>x y. (x - a) * (y - b)) xs ys) = (0::real)"
proof -
  have "\<forall>x\<in>set ys. x = b" using assms(1) by (rule sum_sq_zero)
  then show ?thesis using assms(2)
    by (induction xs ys rule: list_induct2') auto
qed

text \<open>
  The value the code computes, for whatever \<^verbatim>\<open>torch.mean\<close> returns: one minus the quotient
  of the sum of products of the centred vectors by the product of their norms.  It is
  always a value, never an error, for vectors of one length.
\<close>

lemma pearson_loss_closed_form:
  assumes "length outputs = length targets"
  shows "pearson_correlation_loss mu outputs targets =
     Inr (one_minus (fdiv
       (sum_list (map2 (\<lambda>x y. (x - mu outputs) * (y - mu targets)) outputs targets))
       (sqrt (sum_list (map2 (\<lambda>x y. (x - mu outputs) * (y - mu outputs)) outputs outputs)) *
        sqrt (sum_list (map2 (\<lambda>x y. (x - mu targets) * (y - mu targets)) targets targets)))))"
proof -
  have b: "broadcast (map (\<lambda>x. x - mu outputs) outputs) (map (\<lambda>x. x - mu targets) targets)
      = Inr (map (\<lambda>x. x - mu outputs) outputs, map (\<lambda>x. x - mu targets) targets)"
    using assms by (simp add: broadcast_def)
  show ?thesis
    unfolding pearson_correlation_loss_def Let_def b sq_center
    by (simp only: sum.case prod.case map2_center)
qed

lemma centred_zero_sum:
  "list_all (\<lambda>x. x = a) xs \<Longrightarrow> sum_list (map2 (\<lambda>x y. (x - a) * (y - (a::real))) xs xs) = 0"
  by (induction xs) simp_all

text \<open>
  When the centring of one of the two vectors is exactly zero (every element equals the
  mean that was computed for it), the quotient is \<open>0/0\<close> and the loss is \<open>nan\<close>.
\<close>

lemma centred_zero_loss_NaN:
  assumes len: "length outputs = length targets"
    and z: "list_all (\<lambda>x. x = mu outputs) outputs \<or> list_all (\<lambda>y. y = mu targets) targets"
  shows "pearson_correlation_loss mu outputs targets = Inr NaN"
proof -
  let ?sxy = "sum_list (map2 (\<lambda>x y. (x - mu outputs) * (y - mu targets)) outputs targets)"
  let ?sxx = "sum_list (map2 (\<lambda>x y. (x - mu outputs) * (y - mu outputs)) outputs outputs)"
  let ?syy = "sum_list (map2 (\<lambda>x y. (x - mu targets) * (y - mu targets)) targets targets)"
  from z have "?sxx = 0 \<or> ?syy = 0"
    using centred_zero_sum[of "mu outputs" outputs] centred_zero_sum[of "mu targets" targets]
    by blast
  then have "?sxy = 0 \<and> sqrt ?sxx * sqrt ?syy = 0"
  proof
    assume x: "?sxx = 0"
    then have "?sxy = 0" using len by (rule sum_prod_zero_left)
    with x show ?thesis by simp
  next
    assume y: "?syy = 0"
    then have "?sxy = 0" using len by (rule sum_prod_zero_right)
    with y show ?thesis by simp
  qed
  then show ?thesis
    by (simp add: pearson_loss_closed_form[OF len] fdiv_def)
qed

text \<open>
  When neither centred vector is exactly zero, the loss (with the remaining arithmetic
  over the reals) is a number and not \<open>nan\<close>: a constant vector whose computed mean is
  off by a rounding residue is such a case.
\<close>

lemma residue_loss_is_number:
  assumes len: "length outputs = length targets"
    and x: "\<not> list_all (\<lambda>x. x = mu outputs) outputs"
    and y: "\<not> list_all (\<lambda>y. y = mu targets) targets"
  shows "\<exists>r. pearson_correlation_loss mu outputs targets = Inr (Fin r)"
proof -
  let ?sxx = "sum_list (map2 (\<lambda>x y. (x - mu outputs) * (y - mu outputs)) outputs outputs)"
  let ?syy = "sum_list (map2 (\<lambda>x y. (x - mu targets) * (y - mu targets)) targets targets)"
  have "?sxx \<noteq> 0" using x sum_sq_zero[of "mu outputs" outputs] by (auto simp: list_all_iff)
  moreover have "?syy \<noteq> 0" using y sum_sq_zero[of "mu targets" targets] by (auto simp: list_all_iff)
  ultimately have "sqrt ?sxx * sqrt ?syy \<noteq> 0" by simp
  then show ?thesis
    by (simp add: pearson_loss_closed_form[OF len] fdiv_def)
qed

text \<open>
  With the exact mean, the loss computed by the code is one minus the Pearson
  correlation coefficient, including the case where the coefficient is undefined.
\<close>

lemma pearson_refines:
  assumes "length outputs = length targets"
    and "mu outputs = arithmetic_mean outputs"
    and "mu targets = arithmetic_mean targets"
  shows "pearson_correlation_loss mu outputs targets = Inr (one_minus (pearson_correlation outputs targets))"
proof -
  define n where "n = real (length outputs)"
  define sxy where "sxy = sum_list (map2 (\<lambda>x y. (x - arithmetic_mean outputs) * (y - arithmetic_mean targets)) outputs targets)"
  define sxx where "sxx = sum_list (map2 (\<lambda>x y. (x - arithmetic_mean outputs) * (y - arithmetic_mean outputs)) outputs outputs)"
  define syy where "syy = sum_list (map2 (\<lambda>x y. (x - arithmetic_mean targets) * (y - arithmetic_mean targets)) targets targets)"
  have xx: "0 \<le> sxx" and yy: "0 \<le> syy" unfolding sxx_def syy_def by (rule sum_sq_nonneg)+
  have n0: "0 \<le> n" by (simp add: n_def)
  have code: "pearson_correlation_loss mu outputs targets = Inr (one_minus (fdiv sxy (sqrt sxx * sqrt syy)))"
    unfolding pearson_loss_closed_form[OF assms(1)] assms(2,3) sxy_def sxx_def syy_def ..
  have cov: "covariance outputs targets = sxy / n" "covariance outputs outputs = sxx / n"
     "covariance targets targets = syy / n"
    using assms(1) by (simp_all add: covariance_def sxy_def sxx_def syy_def n_def)
  show ?thesis
  proof (cases "n = 0")
    case True
    then have "outputs = []" "targets = []" using assms(1) by (simp_all add: n_def)
    then show ?thesis
      by (simp add: pearson_correlation_loss_def broadcast_def pearson_correlation_def
          std_deviation_def covariance_def fdiv_def)
  next
    case False
    then have npos: "0 < n" using n0 by simp
    have prod: "std_deviation outputs * std_deviation targets = sqrt sxx * sqrt syy / n"
      using npos by (simp add: std_deviation_def cov real_sqrt_divide)
    show ?thesis
    proof (cases "sqrt sxx * sqrt syy = 0")
      case True
      then have "sxx = 0 \<or> syy = 0" by simp
      have "sxy = 0"
      proof (cases "sxx = 0")
        case True
        then show ?thesis unfolding sxy_def sxx_def using assms(1) by (rule sum_prod_zero_left)
      next
        case False
        with \<open>sxx = 0 \<or> syy = 0\<close> have "syy = 0" by simp
        then show ?thesis unfolding sxy_def syy_def using assms(1) by (rule sum_prod_zero_right)
      qed
      with True prod show ?thesis
        by (simp add: code pearson_correlation_def fdiv_def)
    next
      case False
      with prod npos show ?thesis
        by (simp add: code pearson_correlation_def fdiv_def cov)
    qed
  qed
qed


section \<open>Properties of the training loop\<close>

lemma fgt_imp_fge: "fgt a b \<Longrightarrow> fge a b"
  by (cases a; cases b) auto

lemma not_fgt_fge: "\<not> fgt m b \<Longrightarrow> m \<noteq> NaN \<Longrightarrow> b \<noteq> NaN \<Longrightarrow> fge b m"
  by (cases m; cases b) auto

lemma fge_trans: "fge a b \<Longrightarrow> fge b c \<Longrightarrow> fge a c"
  by (cases a; cases b; cases c) auto

lemma fge_refl: "a \<noteq> NaN \<Longrightarrow> fge a a"
  by (cases a) auto

lemma fgt_not_NaN: "fgt a b \<Longrightarrow> a \<noteq> NaN \<and> a \<noteq> NegInf"
  by (cases a; cases b) auto

lemma checkpoint_inv_init: "checkpoint_inv c val_loader (init_state model file)"
  by (simp add: checkpoint_inv_def init_state_def)

lemma checkpoint_inv_epoch:
  assumes inv: "checkpoint_inv c val_loader s"
    and step: "train_epoch c model_type batches val_loader s = Inr s'"
  shows "checkpoint_inv c val_loader s'"
proof -
  from step obtain model total_loss avg m where
    ev: "evaluate_model c model val_loader = Inr m" and
    s': "s' = checkpoint_decision
           (s\<lparr>model_state := model, history := history s @ [(avg, m)]\<rparr>) m"
    by (auto simp: train_epoch_def split: sum.splits prod.splits)
  from inv have b: "best_pearson s \<noteq> NaN"
    and h: "\<And>l x. (l, x) \<in> set (history s) \<Longrightarrow> x \<noteq> NaN \<Longrightarrow> fge (best_pearson s) x"
    and f: "best_pearson s \<noteq> NegInf \<Longrightarrow>
        \<exists>p. best_model_file s = Some p \<and> evaluate_model c p val_loader = Inr (best_pearson s)"
    by (auto simp: checkpoint_inv_def)
  show ?thesis
  proof (cases "fgt m (best_pearson s)")
    case True
    then have m: "m \<noteq> NaN" "fge m (best_pearson s)"
      using fgt_not_NaN fgt_imp_fge by blast+
    have "fge m x" if "(l, x) \<in> set (history s)" "x \<noteq> NaN" for l x
      using h[OF that] m(2) fge_trans by blast
    with True m ev show ?thesis
      by (auto simp: s' checkpoint_decision_def checkpoint_inv_def fge_refl)
  next
    case False
    have "fge (best_pearson s) m" if "m \<noteq> NaN"
      using False that b by (rule not_fgt_fge)
    with False b h f show ?thesis
      by (auto simp: s' checkpoint_decision_def checkpoint_inv_def)
  qed
qed

lemma checkpoint_inv_loop:
  "checkpoint_inv c val_loader s \<Longrightarrow>
   epoch_loop c model_type train_loader val_loader es s = Inr s' \<Longrightarrow>
   checkpoint_inv c val_loader s'"
proof (induction es arbitrary: s)
  case Nil
  then show ?case by simp
next
  case (Cons e es)
  from Cons.prems(2) obtain s1 where
    1: "train_epoch c model_type (train_loader e) val_loader s = Inr s1" and
    2: "epoch_loop c model_type train_loader val_loader es s1 = Inr s'"
    by (auto split: sum.splits)
  from Cons.prems(1) 1 have "checkpoint_inv c val_loader s1" by (rule checkpoint_inv_epoch)
  then show ?case using 2 by (rule Cons.IH)
qed

text \<open>
  Claim C2, as amended (checkpoint monotonicity).  The checkpoint file is rewritten only
  when the new validation metric is strictly greater than \<open>best_pearson\<close> (which
  starts at \<open>-inf\<close>; a \<open>nan\<close> metric is never strictly greater), and then it holds the
  parameters just evaluated and \<open>best_pearson\<close> becomes that metric.  After any number of
  epochs, \<open>best_pearson\<close> is greater than or equal to every validation metric recorded
  so far that is not \<open>nan\<close>, and as soon as it differs from the sentinel, the file
  holds parameters whose validation metric equals \<open>best_pearson\<close>.
\<close>

theorem checkpoint_bounds_numeric_metrics:
  assumes "epoch_loop c model_type train_loader val_loader [0..<epochs] (init_state model file) = Inr s"
  shows "(\<forall>(l, m) \<in> set (history s). m \<noteq> NaN \<longrightarrow> fge (best_pearson s) m) \<and>
         (best_pearson s \<noteq> NegInf \<longrightarrow>
            (\<exists>p. best_model_file s = Some p \<and> evaluate_model c p val_loader = Inr (best_pearson s))) \<and>
         (best_model_file (checkpoint_decision s0 x) \<noteq> best_model_file s0 \<longrightarrow> fgt x (best_pearson s0)) \<and>
         (fgt x (best_pearson s0) \<longrightarrow>
            best_model_file (checkpoint_decision s0 x) = Some (model_state s0) \<and>
            best_pearson (checkpoint_decision s0 x) = x)"
proof -
  have "checkpoint_inv c val_loader s"
    using checkpoint_inv_init assms by (rule checkpoint_inv_loop)
  then show ?thesis
    by (simp add: checkpoint_inv_def checkpoint_decision_def)
qed

text \<open>The concrete run: two epochs, one training batch, one validation batch.\<close>

lemma pc1: "pearson_correlation [0, 2] [0, 2] = Fin 1"
  by (simp add: pearson_correlation_def std_deviation_def covariance_def arithmetic_mean_def)

lemma pc2: "pearson_correlation [1, 1] [0, 2] = NaN"
  by (simp add: pearson_correlation_def std_deviation_def covariance_def arithmetic_mean_def)

lemma saturating_run:
  "epoch_loop saturating ''bert'' (\<lambda>epoch. [[0, 2]]) [[0, 2]] [0..<2] (init_state 0 None)
    = Inr \<lparr>model_state = 2, history = [(Fin 1, Fin 1), (Fin 0, NaN)],
           best_pearson = Fin 1, best_model_file = Some 1\<rparr>"
  by (simp add: upt_rec[of 0] upt_rec[of 1] upt_rec[of "Suc 0"] train_epoch_def saturating_def batch_loss_def MSELoss_def broadcast_def fdiv_def
      evaluate_model_def pearsonr_def pc1 pc2 checkpoint_decision_def init_state_def)

text \<open>
  Claim C2 as stated fails when a validation metric is \<open>nan\<close>, which \<^verbatim>\<open>pearsonr\<close> returns
  for constant predictions: in the run below the second epoch's metric is \<open>nan\<close>, the
  stored checkpoint is the first epoch's with metric 1, and \<open>1 >= nan\<close> is false.
\<close>

theorem nan_metric_counterexample: "epoch_loop saturating ''bert'' (\<lambda>epoch. [[0, 2]]) [[0, 2]] [0..<2] (init_state 0 None)
    = Inr \<lparr>model_state = 2, history = [(Fin 1, Fin 1), (Fin 0, NaN)],
           best_pearson = Fin 1, best_model_file = Some 1\<rparr> \<and> \<not> fge (Fin 1) NaN"
  using saturating_run by simp

text \<open>The amended claim C2 on the same run.\<close>

theorem checkpoint_bounds_numeric_metrics_witness:
  "epoch_loop saturating ''bert'' (\<lambda>epoch. [[0, 2]]) [[0, 2]] [0..<2] (init_state 0 None)
    = Inr \<lparr>model_state = 2, history = [(Fin 1, Fin 1), (Fin 0, NaN)],
           best_pearson = Fin 1, best_model_file = Some 1\<rparr> \<and>
   fge (Fin 1) (Fin 1) \<and> evaluate_model saturating 1 [[0, 2]] = Inr (Fin 1)"
  using checkpoint_bounds_numeric_metrics [OF saturating_run, of "init_state 0 None" NaN] saturating_run
  by (simp add: evaluate_model_def saturating_def pearsonr_def pc1)


section \<open>Loss selection and zero variance\<close>







text \<open>
  Claim C4, as amended (zero-variance batch).  \<^verbatim>\<open>pearson_correlation_loss\<close> contains no
  zero-variance detection and raises nothing: for every batch it returns a value, and
  the batch loop of the Siamese model neither skips the batch nor substitutes a loss,
  it takes the optimizer step and adds that value to the running total.  For a constant
  prediction vector or label vector whose computed mean is exactly that constant (so
  that the centring is exactly zero), the value is \<open>nan\<close>.
\<close>

theorem zero_variance_not_detected:
  assumes "length outputs = length targets"
    and "elements (model_forward c model batch) = outputs"
    and "labels_of c batch = targets"
  shows "\<exists>v. pearson_correlation_loss (torch_mean c) outputs targets = Inr v \<and>
             train_batches c ''siamese'' (batch # rest) (model, total_loss)
               = train_batches c ''siamese'' rest
                   (optimizer_step c ''siamese'' model batch, fadd total_loss v) \<and>
             ((list_all (\<lambda>x. x = k) outputs \<and> torch_mean c outputs = k) \<or>
              (list_all (\<lambda>y. y = k) targets \<and> torch_mean c targets = k) \<longrightarrow> v = NaN)"
proof -
  from pearson_loss_closed_form[OF assms(1), of "torch_mean c"]
  obtain v where v: "pearson_correlation_loss (torch_mean c) outputs targets = Inr v" by blast
  have step: "train_batches c ''siamese'' (batch # rest) (model, total_loss)
               = train_batches c ''siamese'' rest
                   (optimizer_step c ''siamese'' model batch, fadd total_loss v)"
    using v assms(2,3) by (simp add: batch_loss_def)
  have nan: "v = NaN"
    if "(list_all (\<lambda>x. x = k) outputs \<and> torch_mean c outputs = k) \<or>
        (list_all (\<lambda>y. y = k) targets \<and> torch_mean c targets = k)"
  proof -
    from that have "list_all (\<lambda>x. x = torch_mean c outputs) outputs \<or>
                    list_all (\<lambda>y. y = torch_mean c targets) targets"
      by auto
    with assms(1) have "pearson_correlation_loss (torch_mean c) outputs targets = Inr NaN"
      by (rule centred_zero_loss_NaN)
    with v show ?thesis by simp
  qed
  from v step nan show ?thesis by blast
qed

text \<open>
  Claim C4 as stated (the condition is detected and reported) fails on the constant
  prediction vector \<open>[1, 1]\<close>, whose mean is exactly 1: the loss is the value \<open>nan\<close>,
  and the training step goes through with it.
\<close>

theorem constant_predictions_counterexample:
  "pearson_correlation_loss arithmetic_mean [1, 1] [0, 2] = Inr NaN \<and>
   train_batches saturating ''siamese'' [[0, 2]] (0, Fin 0) = Inr (1, NaN)"
  by (simp add: saturating_def batch_loss_def pearson_refines pc2)

theorem zero_variance_not_detected_witness:
  "length [1, 1 :: real] = length [0, 2 :: real] \<and>
   elements (model_forward saturating 0 [0, 2]) = [1, 1] \<and>
   labels_of saturating [0, 2] = [0, 2] \<and>
   list_all (\<lambda>x. x = 1) [1, 1 :: real] \<and> torch_mean saturating [1, 1] = 1 \<and>
   pearson_correlation_loss (torch_mean saturating) [1, 1] [0, 2] = Inr NaN \<and>
   train_batches saturating ''siamese'' [[0, 2]] (0, Fin 3) = Inr (1, NaN)"
proof -
  have h: "length [1, 1 :: real] = length [0, 2 :: real]"
    "elements (model_forward saturating 0 [0, 2]) = [1, 1]"
    "labels_of saturating [0, 2] = [0, 2]"
    by (simp_all add: saturating_def)
  have k: "list_all (\<lambda>x. x = 1) [1, 1 :: real]" "torch_mean saturating [1, 1] = 1"
    by (simp_all add: saturating_def arithmetic_mean_def)
  from zero_variance_not_detected [OF h, where rest = "[]" and total_loss = "Fin 3" and k = 1]
  obtain v where v: "pearson_correlation_loss (torch_mean saturating) [1, 1] [0, 2] = Inr v"
    and s: "train_batches saturating ''siamese'' [[0, 2]] (0, Fin 3)
              = train_batches saturating ''siamese'' []
                  (optimizer_step saturating ''siamese'' 0 [0, 2], fadd (Fin 3) v)"
    and n: "(list_all (\<lambda>x. x = 1) [1, 1 :: real] \<and> torch_mean saturating [1, 1] = 1) \<or>
            (list_all (\<lambda>y. y = 1) [0, 2 :: real] \<and> torch_mean saturating [0, 2] = 1) \<longrightarrow> v = NaN"
    by blast
  from n k have "v = NaN" by blast
  with v s have "pearson_correlation_loss (torch_mean saturating) [1, 1] [0, 2] = Inr NaN"
    "train_batches saturating ''siamese'' [[0, 2]] (0, Fin 3) = Inr (1, NaN)"
    by (simp_all add: saturating_def)
  with h k show ?thesis by blast
qed

section \<open>Properties of the collator\<close>

lemma fold_max_init: "(a::nat) \<le> fold max xs a"
proof (induction xs arbitrary: a)
  case Nil
  then show ?case by simp
next
  case (Cons x xs)
  have "a \<le> max x a" by simp
  also have "\<dots> \<le> fold max xs (max x a)" by (rule Cons.IH)
  finally show ?case by simp
qed

lemma fold_max_upper: "x \<in> set xs \<Longrightarrow> (x::nat) \<le> fold max xs a"
proof (induction xs arbitrary: a)
  case Nil
  then show ?case by simp
next
  case (Cons y ys)
  show ?case
  proof (cases "x = y")
    case True
    have "x \<le> max y a" using True by simp
    also have "\<dots> \<le> fold max ys (max y a)" by (rule fold_max_init)
    finally show ?thesis by simp
  next
    case False
    with Cons.prems have "x \<in> set ys" by simp
    then show ?thesis using Cons.IH by simp
  qed
qed

lemma fold_max_attained: "fold max xs a = (a::nat) \<or> fold max xs a \<in> set xs"
proof (induction xs arbitrary: a)
  case Nil
  then show ?case by simp
next
  case (Cons y ys)
  from Cons.IH[of "max y a"] show ?case
    by (auto simp: max_def split: if_splits)
qed

lemma longest_upper: "f \<in> set features \<Longrightarrow> length (input_ids f) \<le> longest features"
  unfolding longest_def by (rule fold_max_upper) simp

lemma longest_attained:
  assumes "features \<noteq> []"
  shows "\<exists>f\<in>set features. length (input_ids f) = longest features"
proof -
  let ?ls = "map (\<lambda>f. length (input_ids f)) features"
  from fold_max_attained[of ?ls 0] show ?thesis
  proof
    assume z: "fold max ?ls 0 = 0"
    from assms obtain f where f: "f \<in> set features" by (cases features) auto
    then have "length (input_ids f) \<le> longest features" by (rule longest_upper)
    with z f show ?thesis by (auto simp: longest_def)
  next
    assume "fold max ?ls 0 \<in> set ?ls"
    then show ?thesis by (auto simp: longest_def)
  qed
qed

lemma longest_Max:
  assumes "features \<noteq> []"
  shows "longest features = Max ((\<lambda>f. length (input_ids f)) ` set features)"
proof (rule sym, rule Max_eqI)
  show "finite ((\<lambda>f. length (input_ids f)) ` set features)" by simp
  show "y \<le> longest features" if "y \<in> (\<lambda>f. length (input_ids f)) ` set features" for y
    using that longest_upper by auto
  show "longest features \<in> (\<lambda>f. length (input_ids f)) ` set features"
  proof -
    from longest_attained[OF assms] obtain f where
      "f \<in> set features" "length (input_ids f) = longest features" by blast
    then show ?thesis by (metis imageI)
  qed
qed

lemma padding_collator_ok:
  assumes ne: "features \<noteq> []"
    and len: "\<forall>f\<in>set features. length (attention_mask f) = length (input_ids f)"
  shows "padding_collator pad_id features =
     Inr \<lparr>padded_input_ids =
            map (\<lambda>f. input_ids f @ replicate (longest features - length (input_ids f)) pad_id) features,
          padded_attention_mask =
            map (\<lambda>f. attention_mask f @ replicate (longest features - length (input_ids f)) 0) features\<rparr>"
proof -
  have "length (attention_mask f) + (longest features - length (input_ids f)) = longest features"
    if "f \<in> set features" for f
    using len that longest_upper[OF that] by simp
  then show ?thesis
    using ne by (simp add: padding_collator_def Let_def pad_right_def list_all_iff)
qed

lemma longest_features1:
  "examples \<noteq> [] \<Longrightarrow>
   longest (map (\<lambda>ex. \<lparr>input_ids = input_ids1 ex, attention_mask = attention_mask1 ex\<rparr>) examples)
     = width1 examples"
  by (simp add: longest_Max width1_def image_image)

lemma longest_features2:
  "examples \<noteq> [] \<Longrightarrow>
   longest (map (\<lambda>ex. \<lparr>input_ids = input_ids2 ex, attention_mask = attention_mask2 ex\<rparr>) examples)
     = width2 examples"
  by (simp add: longest_Max width2_def image_image)

lemma collator_result:
  assumes ne: "examples \<noteq> []" and ok: "\<forall>ex\<in>set examples. tokenized_ok ex"
  shows "CustomDataCollatorWithPadding tok float32 examples =
    Inr \<lparr>b_input_ids1 = map (\<lambda>ex. input_ids1 ex @ replicate (width1 examples - length (input_ids1 ex)) (pad_token_id tok)) examples,
         b_attention_mask1 = map (\<lambda>ex. attention_mask1 ex @ replicate (width1 examples - length (input_ids1 ex)) 0) examples,
         b_input_ids2 = map (\<lambda>ex. input_ids2 ex @ replicate (width2 examples - length (input_ids2 ex)) (pad_token_id tok)) examples,
         b_attention_mask2 = map (\<lambda>ex. attention_mask2 ex @ replicate (width2 examples - length (input_ids2 ex)) 0) examples,
         b_labels = map (\<lambda>ex. float32 (labels ex)) examples\<rparr>"
proof -
  let ?f1 = "map (\<lambda>ex. \<lparr>input_ids = input_ids1 ex, attention_mask = attention_mask1 ex\<rparr>) examples"
  let ?f2 = "map (\<lambda>ex. \<lparr>input_ids = input_ids2 ex, attention_mask = attention_mask2 ex\<rparr>) examples"
  have 1: "?f1 \<noteq> []" "?f2 \<noteq> []" using ne by simp_all
  have 2: "\<forall>f\<in>set ?f1. length (attention_mask f) = length (input_ids f)"
          "\<forall>f\<in>set ?f2. length (attention_mask f) = length (input_ids f)"
    using ok by (auto simp: tokenized_ok_def)
  show ?thesis
    unfolding CustomDataCollatorWithPadding_def Let_def
      padding_collator_ok[OF 1(1) 2(1)] padding_collator_ok[OF 1(2) 2(2)]
      longest_features1[OF ne] longest_features2[OF ne]
    by (simp add: comp_def)
qed


text \<open>
  Claim C5 (batch padding).  For a non-empty list of tokenized pairs, the collator
  returns a batch with one row per example, in the order of the list; every row of side
  1 has the width of the longest side-1 sequence of this list and every row of side 2
  the width of the longest side-2 sequence of this list (the two widths are computed
  separately); each row starts with the example's own ids; within the width, the mask
  is 0 exactly at the positions at or beyond the example's true length, where the ids
  are the pad token; and the labels are the examples' labels, converted to float32, in
  the order of the list.
\<close>

theorem collator_pads_to_batch_maximum:
  assumes "examples \<noteq> []" and "\<forall>ex\<in>set examples. tokenized_ok ex"
  shows "\<exists>b. CustomDataCollatorWithPadding tok float32 examples = Inr b \<and>
     length (b_input_ids1 b) = length examples \<and>
     length (b_attention_mask1 b) = length examples \<and>
     length (b_input_ids2 b) = length examples \<and>
     length (b_attention_mask2 b) = length examples \<and>
     b_labels b = map (\<lambda>ex. float32 (labels ex)) examples \<and>
     (\<forall>i<length examples.
        length (b_input_ids1 b ! i) = width1 examples \<and>
        length (b_attention_mask1 b ! i) = width1 examples \<and>
        length (b_input_ids2 b ! i) = width2 examples \<and>
        length (b_attention_mask2 b ! i) = width2 examples \<and>
        take (length (input_ids1 (examples ! i))) (b_input_ids1 b ! i) = input_ids1 (examples ! i) \<and>
        take (length (input_ids2 (examples ! i))) (b_input_ids2 b ! i) = input_ids2 (examples ! i) \<and>
        (\<forall>j<width1 examples.
           (b_attention_mask1 b ! i ! j = 0) = (length (input_ids1 (examples ! i)) \<le> j) \<and>
           (length (input_ids1 (examples ! i)) \<le> j \<longrightarrow> b_input_ids1 b ! i ! j = pad_token_id tok)) \<and>
        (\<forall>j<width2 examples.
           (b_attention_mask2 b ! i ! j = 0) = (length (input_ids2 (examples ! i)) \<le> j) \<and>
           (length (input_ids2 (examples ! i)) \<le> j \<longrightarrow> b_input_ids2 b ! i ! j = pad_token_id tok)))"
proof -
  have w1: "length (input_ids1 ex) \<le> width1 examples" if "ex \<in> set examples" for ex
    unfolding width1_def using that by (intro Max_ge) auto
  have w2: "length (input_ids2 ex) \<le> width2 examples" if "ex \<in> set examples" for ex
    unfolding width2_def using that by (intro Max_ge) auto
  have o1: "attention_mask1 (examples ! i) ! j \<noteq> 0"
    if "i < length examples" "j < length (input_ids1 (examples ! i))" for i j
    using assms(2) that by (auto simp: tokenized_ok_def list_all_length dest!: nth_mem)
  have o2: "attention_mask2 (examples ! i) ! j \<noteq> 0"
    if "i < length examples" "j < length (input_ids2 (examples ! i))" for i j
    using assms(2) that by (auto simp: tokenized_ok_def list_all_length dest!: nth_mem)
  have l: "length (attention_mask1 ex) = length (input_ids1 ex)"
          "length (attention_mask2 ex) = length (input_ids2 ex)" if "ex \<in> set examples" for ex
    using assms(2) that by (auto simp: tokenized_ok_def)
  show ?thesis
    unfolding collator_result[OF assms]
    by (rule exI, rule conjI, rule refl) (simp add: l w1 w2 o1 o2 nth_append)
qed

text \<open>
  The batch with side-1 lengths 5, 12, 8: the widths are 12 and 4, so they differ.
\<close>

lemma example_batch_ok: "\<forall>ex\<in>set example_batch. tokenized_ok ex"
  by (simp add: example_batch_def tokenized_ok_def)

lemma example_batch_widths: "width1 example_batch = 12 \<and> width2 example_batch = 4"
  by (simp add: example_batch_def width1_def width2_def)

theorem collator_pads_to_batch_maximum_witness:
  "example_batch \<noteq> [] \<and> list_all tokenized_ok example_batch \<and>
   width1 example_batch = 12 \<and> width2 example_batch = 4 \<and>
   (\<exists>b. CustomDataCollatorWithPadding one_word (\<lambda>x. x) example_batch = Inr b \<and>
        b_labels b = [1, 0, 1 / 2] \<and>
        length (b_input_ids1 b ! 0) = 12 \<and> length (b_input_ids2 b ! 0) = 4 \<and>
        b_attention_mask1 b ! 0 ! 4 \<noteq> 0 \<and> b_attention_mask1 b ! 0 ! 5 = 0)"
proof -
  have ne: "example_batch \<noteq> []" by (simp add: example_batch_def)
  from collator_pads_to_batch_maximum [OF ne example_batch_ok, of one_word "\<lambda>x. x"]
  obtain b where b: "CustomDataCollatorWithPadding one_word (\<lambda>x. x) example_batch = Inr b"
    and lab: "b_labels b = map (\<lambda>ex. labels ex) example_batch"
    and rows: "\<forall>i<length example_batch.
        length (b_input_ids1 b ! i) = width1 example_batch \<and>
        length (b_attention_mask1 b ! i) = width1 example_batch \<and>
        length (b_input_ids2 b ! i) = width2 example_batch \<and>
        length (b_attention_mask2 b ! i) = width2 example_batch \<and>
        take (length (input_ids1 (example_batch ! i))) (b_input_ids1 b ! i) = input_ids1 (example_batch ! i) \<and>
        take (length (input_ids2 (example_batch ! i))) (b_input_ids2 b ! i) = input_ids2 (example_batch ! i) \<and>
        (\<forall>j<width1 example_batch.
           (b_attention_mask1 b ! i ! j = 0) = (length (input_ids1 (example_batch ! i)) \<le> j) \<and>
           (length (input_ids1 (example_batch ! i)) \<le> j \<longrightarrow> b_input_ids1 b ! i ! j = pad_token_id one_word)) \<and>
        (\<forall>j<width2 example_batch.
           (b_attention_mask2 b ! i ! j = 0) = (length (input_ids2 (example_batch ! i)) \<le> j) \<and>
           (length (input_ids2 (example_batch ! i)) \<le> j \<longrightarrow> b_input_ids2 b ! i ! j = pad_token_id one_word))"
    by blast
  have len: "0 < length example_batch" by (simp add: example_batch_def)
  from rows len have r0: "length (b_input_ids1 b ! 0) = 12" "length (b_input_ids2 b ! 0) = 4"
    by (simp_all add: example_batch_widths)
  from rows len have
    "(b_attention_mask1 b ! 0 ! 5 = 0) = (length (input_ids1 (example_batch ! 0)) \<le> 5)"
    "(b_attention_mask1 b ! 0 ! 4 = 0) = (length (input_ids1 (example_batch ! 0)) \<le> 4)"
    by (simp_all add: example_batch_widths)
  then have m5: "b_attention_mask1 b ! 0 ! 5 = 0" and m4: "b_attention_mask1 b ! 0 ! 4 \<noteq> 0"
    by (simp_all add: example_batch_def)
  from lab have lab': "b_labels b = [1, 0, 1 / 2]" by (simp add: example_batch_def)
  show ?thesis
    using ne example_batch_ok example_batch_widths b lab' r0 m4 m5
    unfolding list_all_iff by blast
qed

section \<open>Properties of the freeze policy\<close>

lemma freeze_lower_layers_length [simp]:
  "length (encoder_layer (freeze_lower_layers f b)) = length (encoder_layer b)"
  by (simp add: freeze_lower_layers_def)

lemma freeze_lower_layers_nth:
  "i < length (encoder_layer b) \<Longrightarrow>
   encoder_layer (freeze_lower_layers f b) ! i =
     (if int i < int (length (encoder_layer b)) - f
      then freeze_parameters (encoder_layer b ! i) else encoder_layer b ! i)"
  by (simp add: freeze_lower_layers_def nth_enumerate_eq)

lemma freeze_lower_layers_other [simp]:
  "embeddings (freeze_lower_layers f b) = embeddings b"
  "pooler (freeze_lower_layers f b) = pooler b"
  by (simp_all add: freeze_lower_layers_def)

lemma freeze_parameters_frozen: "layer_frozen (freeze_parameters layer)"
  by (simp add: layer_frozen_def freeze_parameters_def list_all_iff)

lemma freeze_parameters_data: "map data (freeze_parameters layer) = map data layer"
  by (simp add: freeze_parameters_def)

lemma trainable_layer_indices_iff:
  "i \<in> trainable_layer_indices N f \<longleftrightarrow> i < N \<and> \<not> int i < int N - f"
  by (auto simp: trainable_layer_indices_def)

lemma trainable_layer_indices_range:
  assumes "0 \<le> f" "f \<le> int N"
  shows "trainable_layer_indices N f = {N - nat f..<N}"
  using assms by (auto simp: trainable_layer_indices_iff)

lemma freeze_policy:
  assumes "list_all layer_trainable (encoder_layer pretrained)"
    and "N = length (encoder_layer pretrained)"
    and "b = freeze_lower_layers f pretrained"
  shows "length (encoder_layer b) = N \<and>
         embeddings b = embeddings pretrained \<and>
         (\<forall>i<N. map data (encoder_layer b ! i) = map data (encoder_layer pretrained ! i) \<and>
                (if int i < int N - f
                 then layer_frozen (encoder_layer b ! i)
                 else encoder_layer b ! i = encoder_layer pretrained ! i \<and>
                      layer_trainable (encoder_layer b ! i)))"
  using assms
  by (simp add: freeze_lower_layers_nth freeze_parameters_frozen
      freeze_parameters_data list_all_length)

lemma trainable_layer_indices_set:
  "{i. i < N \<and> \<not> int i < int N - f} = trainable_layer_indices N f"
  by (auto simp: trainable_layer_indices_iff)

text \<open>
  Claim C6 (freeze policy).  For an encoder of \<open>N\<close> layers loaded with all layer
  parameters trainable, each of the three constructors called with freeze depth \<open>f\<close>
  leaves the number of layers and all parameter values unchanged, marks every parameter
  of layer \<open>i\<close> non-trainable exactly when \<open>i < N - f\<close> and leaves every other layer as
  loaded (trainable), and does not touch the embeddings.  The set of trainable layer
  indices is the function \<open>trainable_layer_indices N f\<close> of \<open>N\<close> and \<open>f\<close> alone, which
  for \<open>0 \<le> f \<le> N\<close> is the top \<open>f\<close> indices \<open>N - f, ..., N - 1\<close>.
\<close>

theorem freeze_policy_first_layers:
  assumes "list_all layer_trainable (encoder_layer pretrained)"
    and "N = length (encoder_layer pretrained)"
    and "m = SentenceSimilarityModelOne_init pretrained head f \<or>
         m = SiameseBERT_init pretrained head f \<or>
         m = CrossAttentionModel_init pretrained attn head f"
  shows "length (encoder_layer (bert m)) = N \<and>
         embeddings (bert m) = embeddings pretrained \<and>
         (\<forall>i<N. map data (encoder_layer (bert m) ! i) = map data (encoder_layer pretrained ! i) \<and>
                (if int i < int N - f
                 then layer_frozen (encoder_layer (bert m) ! i)
                 else encoder_layer (bert m) ! i = encoder_layer pretrained ! i \<and>
                      layer_trainable (encoder_layer (bert m) ! i))) \<and>
         {i. i < N \<and> \<not> int i < int N - f} = trainable_layer_indices N f \<and>
         (0 \<le> f \<and> f \<le> int N \<longrightarrow> trainable_layer_indices N f = {N - nat f..<N})"
proof -
  have b: "bert m = freeze_lower_layers f pretrained"
    using assms(3)
    by (auto simp: SentenceSimilarityModelOne_init_def SiameseBERT_init_def CrossAttentionModel_init_def)
  have r: "0 \<le> f \<and> f \<le> int N \<longrightarrow> trainable_layer_indices N f = {N - nat f..<N}"
    using trainable_layer_indices_range by blast
  from freeze_policy[OF assms(1,2) b] trainable_layer_indices_set[of N f] r show ?thesis
    by blast
qed

theorem freeze_policy_first_layers_witness:
  "list_all layer_trainable (encoder_layer six_layers) \<and>
   (6::nat) = length (encoder_layer six_layers) \<and>
   map (map requires_grad)
     (encoder_layer (bert (SentenceSimilarityModelOne_init six_layers [] 2)))
     = [[False], [False], [False], [False], [True], [True]] \<and>
   embeddings (bert (SentenceSimilarityModelOne_init six_layers [] 2)) = embeddings six_layers \<and>
   trainable_layer_indices 6 2 = {4..<6}"
proof -
  have h1: "list_all layer_trainable (encoder_layer six_layers)"
    by (simp add: six_layers_def layer_trainable_def)
  have h2: "(6::nat) = length (encoder_layer six_layers)"
    by (simp add: six_layers_def)
  have h3: "SentenceSimilarityModelOne_init six_layers [] 2 = SentenceSimilarityModelOne_init six_layers [] 2 \<or>
         SentenceSimilarityModelOne_init six_layers [] 2 = SiameseBERT_init six_layers [] 2 \<or>
         SentenceSimilarityModelOne_init six_layers [] 2 = CrossAttentionModel_init six_layers [] [] 2"
    by simp
  from freeze_policy_first_layers[OF h1 h2 h3]
  have e: "embeddings (bert (SentenceSimilarityModelOne_init six_layers [] 2)) = embeddings six_layers"
    and t: "trainable_layer_indices 6 2 = {6 - nat 2..<6}"
    by simp_all
  have c: "map (map requires_grad)
     (encoder_layer (bert (SentenceSimilarityModelOne_init six_layers [] 2)))
     = [[False], [False], [False], [False], [True], [True]]"
    by (simp add: SentenceSimilarityModelOne_init_def freeze_lower_layers_def six_layers_def
        enumerate_eq_zip upt_rec[of 0] upt_rec[of "Suc 0"] upt_rec[of 1] upt_rec[of 2] upt_rec[of 3] upt_rec[of 4] upt_rec[of 5]
        freeze_parameters_def)
  from h1 h2 e t c show ?thesis by simp
qed

section \<open>Properties of masked mean pooling\<close>

lemma mask_all_zero:
  "list_all (\<lambda>m. m = 0 \<or> m = (1::int)) mask1 \<Longrightarrow> sum_list mask1 = 0 \<Longrightarrow>
     list_all (\<lambda>m. m = 0) mask1"
proof (induction mask1)
  case Nil
  then show ?case by simp
next
  case (Cons m ms)
  from Cons.prems(1) have m: "m = 0 \<or> m = 1" and ms: "list_all (\<lambda>m. m = 0 \<or> m = 1) ms"
    by simp_all
  have "0 \<le> x" if "x \<in> set ms" for x
    using ms that by (auto simp: list_all_iff)
  then have "0 \<le> sum_list ms" by (rule sum_list_nonneg)
  with m Cons.prems(2) have "m = 0" "sum_list ms = 0" by auto
  with Cons.IH ms show ?case by simp
qed

lemma zero_mask_numerator:
  "list_all (\<lambda>m. m = 0) mask1 \<Longrightarrow>
     sum_list (map2 (\<lambda>h m. h ! d * real_of_int m) hidden mask1) = 0"
proof (induction mask1 arbitrary: hidden)
  case Nil
  then show ?case by simp
next
  case (Cons m ms)
  then show ?case by (cases hidden) simp_all
qed

text \<open>
  Claim C7, as amended (pooling with an all-zero mask).  The masked mean has no guard:
  when an example's 0/1 mask sums to 0, the pooling raises nothing and returns \<open>nan\<close>
  in every one of the \<open>D\<close> components.
\<close>

theorem zero_mask_pools_to_nan:
  assumes "length mask1 = length hidden"
    and "list_all (\<lambda>m. m = 0 \<or> m = 1) mask1"
    and "sum_list mask1 = 0"
  shows "masked_mean D hidden mask1 = Inr (replicate D NaN)"
proof -
  have z: "list_all (\<lambda>m. m = 0) mask1" using assms(2,3) by (rule mask_all_zero)
  have "map (\<lambda>d. fdiv (sum_list (map2 (\<lambda>h m. h ! d * real_of_int m) hidden mask1))
                             (real_of_int (sum_list mask1))) [0..<D] = map (\<lambda>d. NaN) [0..<D]"
    by (simp add: zero_mask_numerator[OF z] assms(3) fdiv_def)
  also have "\<dots> = replicate D NaN" by (simp add: map_replicate_const)
  finally show ?thesis using assms(1) by (simp add: masked_mean_def)
qed

lemma upt2: "[0..<2] = [0, 1]"
  by (simp add: upt_conv_Cons)

lemma replicate2: "replicate 2 x = [x, x]"
  by (simp add: numeral_2_eq_2)

text \<open>
  Claim C7 as stated (the zero-sum mask is surfaced as an error) fails on a mask of two
  zeros: the result is a value, the vector of \<open>nan\<close>s.
\<close>

theorem zero_mask_counterexample:
  "masked_mean 2 [[3, 4], [5, 6]] [0, 0] = Inr [NaN, NaN] \<and>
   masked_mean_batch 2 [[[3, 4], [5, 6]]] [[0, 0]] = Inr [[NaN, NaN]]"
  by (simp add: masked_mean_def fdiv_def upt2)

theorem zero_mask_pools_to_nan_witness:
  "length [0, 0 :: int] = length [[3, 4], [5, 6 :: real]] \<and>
   list_all (\<lambda>m. m = 0 \<or> m = 1) [0, 0 :: int] \<and>
   sum_list [0, 0 :: int] = 0 \<and>
   masked_mean 2 [[3, 4], [5, 6]] [0, 0] = Inr [NaN, NaN]"
  using zero_mask_pools_to_nan [of "[0, 0]" "[[3, 4], [5, 6]]" 2]
  by (simp add: replicate2)

lemma pooling_regular: "masked_mean 2 [[3, 4], [5, 6]] [1, 0] = Inr [Fin 3, Fin 4]"
  by (simp add: masked_mean_def fdiv_def upt2)

section \<open>Properties of the tokenizer calls\<close>

lemma length_true_ids:
  "length (true_ids tok text max_length) = min (length (tokenize tok text)) (max_length - 2) + 2"
  by (simp add: true_ids_def)

lemma length_true_ids_le: "length (true_ids tok text 128) \<le> 128"
  by (simp add: length_true_ids)

lemma tokenizer_call_DoNotPad:
  "tokenizer_call tok text DoNotPad n =
     \<lparr>input_ids = true_ids tok text n, attention_mask = replicate (length (true_ids tok text n)) 1\<rparr>"
  by (simp add: tokenizer_call_def Let_def)

lemma tokenizer_call_MaxLength:
  "tokenizer_call tok text MaxLength n =
     \<lparr>input_ids = true_ids tok text n @ replicate (n - length (true_ids tok text n)) (pad_token_id tok),
      attention_mask = replicate (length (true_ids tok text n)) 1
         @ replicate (n - length (true_ids tok text n)) 0\<rparr>"
  by (simp add: tokenizer_call_def Let_def)

text \<open>
  Claim C8, as amended (tokenizer calls).  Dataset preprocessing truncates to 128 and
  does not pad: each side of every tokenized pair is the sentence's true token sequence,
  at most 128 long, with a mask of ones.  Per-pair inference truncates to 128 and pads:
  ids and mask are exactly 128 long, the true token sequence followed by pad tokens,
  with mask 0 on the padding; that padded encoding is what the model is applied to.
\<close>

theorem preprocessing_unpadded_inference_padded:
  "(p \<in> set (tokenize_function tok examples) \<longrightarrow>
      length (input_ids1 p) \<le> 128 \<and> length (input_ids2 p) \<le> 128 \<and>
      attention_mask1 p = replicate (length (input_ids1 p)) 1 \<and>
      attention_mask2 p = replicate (length (input_ids2 p)) 1) \<and>
   map input_ids1 (tokenize_function tok examples) = map (\<lambda>r. true_ids tok (sentence1 r) 128) examples \<and>
   map input_ids2 (tokenize_function tok examples) = map (\<lambda>r. true_ids tok (sentence2 r) 128) examples \<and>
   length (input_ids (tokenizer_call tok text MaxLength 128)) = 128 \<and>
   length (attention_mask (tokenizer_call tok text MaxLength 128)) = 128 \<and>
   input_ids (tokenizer_call tok text MaxLength 128)
     = true_ids tok text 128 @ replicate (128 - length (true_ids tok text 128)) (pad_token_id tok) \<and>
   attention_mask (tokenizer_call tok text MaxLength 128)
     = replicate (length (true_ids tok text 128)) 1 @ replicate (128 - length (true_ids tok text 128)) 0 \<and>
   infer_similarity cls model tok s1 s2 =
     item (map_output (rescale cls)
       (model (tokenizer_call tok s1 MaxLength 128) (tokenizer_call tok s2 MaxLength 128)))"
proof -
  have l: "length (true_ids tok t 128) \<le> 128" for t by (rule length_true_ids_le)
  show ?thesis
    using l by (auto simp: tokenize_function_def tokenizer_call_DoNotPad tokenizer_call_MaxLength
        infer_similarity_def Let_def)
qed

lemma one_word_true_ids: "true_ids one_word text 128 = [101, 7, 102]"
  by (simp add: true_ids_def one_word_def)

text \<open>
  Claim C8 as stated (no tokenizer call of the core pads) fails in
  \<^verbatim>\<open>infer_similarity\<close>: a sentence of true token length 3 is returned with 128 ids
  and 128 mask entries, position 3 being padding.
\<close>

theorem inference_pads_counterexample:
  "true_ids one_word ''The dog is barking loudly'' 128 = [101, 7, 102] \<and>
   length (input_ids (tokenizer_call one_word ''The dog is barking loudly'' MaxLength 128)) = 128 \<and>
   length (attention_mask (tokenizer_call one_word ''The dog is barking loudly'' MaxLength 128)) = 128 \<and>
   input_ids (tokenizer_call one_word ''The dog is barking loudly'' MaxLength 128) ! 3 = 0 \<and>
   attention_mask (tokenizer_call one_word ''The dog is barking loudly'' MaxLength 128) ! 3 = 0"
  by (simp add: tokenizer_call_MaxLength one_word_true_ids nth_append) (simp add: one_word_def)

theorem preprocessing_unpadded_inference_padded_witness:
  "\<lparr>input_ids1 = [101, 7, 102], attention_mask1 = [1, 1, 1],
     input_ids2 = [101, 7, 102], attention_mask2 = [1, 1, 1], labels = 1\<rparr>
     \<in> set (tokenize_function one_word [\<lparr>sentence1 = ''a'', sentence2 = ''b'', score = 1\<rparr>]) \<and>
   length [101, 7, 102 :: int] \<le> 128 \<and>
   length (input_ids (tokenizer_call one_word ''a'' MaxLength 128)) = 128"
  using preprocessing_unpadded_inference_padded
    [of "\<lparr>input_ids1 = [101, 7, 102], attention_mask1 = [1, 1, 1],
         input_ids2 = [101, 7, 102], attention_mask2 = [1, 1, 1], labels = 1\<rparr>"
        one_word "[\<lparr>sentence1 = ''a'', sentence2 = ''b'', score = 1\<rparr>]" "''a''"]
  by (simp add: tokenize_function_def tokenizer_call_DoNotPad one_word_true_ids)

section \<open>Properties of the inference normalizer\<close>

lemma sigmoid_bounds: "0 < sigmoid z \<and> sigmoid z < 1"
proof -
  have "0 < exp (- z)" by simp
  then show ?thesis by (simp add: sigmoid_def add_pos_pos)
qed

lemma tanh_bounds: "- 1 < tanh (x::real) \<and> tanh x < 1"
  by (simp add: tanh_real_gt_neg1 tanh_real_lt_1)

text \<open>
  Claim C9 (inference normalizer).  A raw output \<open>x\<close> of the Siamese head is mapped
  to \<open>tanh x * 2.5 + 2.5\<close> and a raw output of the other two heads to \<open>5 * x\<close>; for
  every pre-activation \<open>z\<close> of a head, the rescaled output of that head (sigmoid-bounded
  for the concatenation and cross-attention models, unconstrained for the Siamese
  model) lies in [0, 5], and this is the score \<^verbatim>\<open>infer_similarity\<close> returns.
\<close>

theorem normalizer_range:
  "rescale SiameseBERT x = tanh x * 2.5 + 2.5 \<and>
   rescale SentenceSimilarityModelOne x = 5 * x \<and>
   rescale CrossAttentionModel x = 5 * x \<and>
   0 \<le> rescale cls (final_activation cls z) \<and> rescale cls (final_activation cls z) \<le> 5 \<and>
   infer_similarity cls (\<lambda>e1 e2. Scalar (final_activation cls (head e1 e2))) tok s1 s2
     = Inr (rescale cls (final_activation cls
         (head (tokenizer_call tok s1 MaxLength 128) (tokenizer_call tok s2 MaxLength 128))))"
proof -
  have s: "0 \<le> sigmoid z * 5 \<and> sigmoid z * 5 \<le> 5"
    using sigmoid_bounds[of z] by simp
  have t: "0 \<le> tanh z * 2.5 + 2.5 \<and> tanh z * 2.5 + 2.5 \<le> 5"
    using tanh_bounds[of z] by simp
  show ?thesis
    using s t by (simp add: rescale_def final_activation_def infer_similarity_def)
qed

section \<open>Properties of the forward passes\<close>

lemma and_then_Inr [simp]: "and_then (Inr x) f = f x"
  by (simp add: and_then_def)

lemma and_then_Inl [simp]: "and_then (Inl e) f = Inl e"
  by (simp add: and_then_def)

lemma first_token_hidden:
  "0 < L \<Longrightarrow> and_then (last_hidden_state D [B, L] [B, L]) first_token = Inr [B, D]"
  by (simp add: last_hidden_state_def first_token_def)

lemma elementwise_same2: "elementwise [a, b] [a, b] = Inr [a, b]"
  by (simp add: elementwise_def)

lemma cat_dim1_2: "cat_dim1 [n, p] [n, q] = Inr [n, p + q]"
  by (simp add: cat_dim1_def)

lemma regressor_rows:
  "regressor_sigmoid k [B, k] = Inr [B, 1]" "regressor_plain k [B, k] = Inr [B, 1]"
  by (simp_all add: regressor_sigmoid_def regressor_plain_def Linear_def)

lemma squeeze_rows: "squeeze [B, 1] = (if B = 1 then [] else [B])"
  by (simp add: squeeze_def)

lemma squeeze_rows_Suc: "squeeze [B, Suc 0] = (if B = Suc 0 then [] else [B])"
  by (simp add: squeeze_def)

lemma pooled_shape: "pooled D [B, L] [B, L] = Inr [B, D]"
  by (simp add: pooled_def last_hidden_state_def unsqueeze_def expand_as_def elementwise_def sum_dim1_def)

lemma forward_shapes:
  assumes "0 < L1" "0 < L2"
  shows "SentenceSimilarityModelOne_forward 384 [B, L1] [B, L1] [B, L2] [B, L2] = Inr (if B = 1 then [] else [B])"
    and "SiameseBERT_forward 384 [B, L1] [B, L1] [B, L2] [B, L2] = Inr (if B = 1 then [] else [B])"
    and "CrossAttentionModel_forward 384 [B, L1] [B, L1] [B, L2] [B, L2] = Inr (if B = 1 then [] else [B])"
proof -
  show "SentenceSimilarityModelOne_forward 384 [B, L1] [B, L1] [B, L2] [B, L2] = Inr (if B = 1 then [] else [B])"
    unfolding SentenceSimilarityModelOne_forward_def first_token_hidden[OF assms(1)] first_token_hidden[OF assms(2)]
    by (simp add: cat_dim1_2 regressor_rows squeeze_rows squeeze_rows_Suc)
  show "SiameseBERT_forward 384 [B, L1] [B, L1] [B, L2] [B, L2] = Inr (if B = 1 then [] else [B])"
    unfolding SiameseBERT_forward_def first_token_hidden[OF assms(1)] first_token_hidden[OF assms(2)]
    by (simp add: elementwise_same2 cat_dim1_2 regressor_rows squeeze_rows squeeze_rows_Suc)
  show "CrossAttentionModel_forward 384 [B, L1] [B, L1] [B, L2] [B, L2] = Inr (if B = 1 then [] else [B])"
    unfolding CrossAttentionModel_forward_def pooled_shape
    by (simp add: unsqueeze_def MultiheadAttention_def squeeze_dim_def cat_dim1_2 regressor_rows squeeze_rows squeeze_rows_Suc)
qed

text \<open>
  Claim C10 (batch of one).  On a batch of exactly one example (non-empty sequences),
  the forward pass of each of the three models returns a tensor of shape \<open>[]\<close>, a
  0-dimensional scalar and not a vector of length 1, because the final \<^verbatim>\<open>squeeze()\<close>
  removes the batch dimension together with the output dimension; for every other
  batch size \<open>B\<close> the result is a vector of shape \<open>[B]\<close>.
\<close>

theorem single_example_batch_gives_scalar:
  assumes "0 < L1" "0 < L2"
  shows "SentenceSimilarityModelOne_forward 384 [1, L1] [1, L1] [1, L2] [1, L2] = Inr [] \<and>
         SiameseBERT_forward 384 [1, L1] [1, L1] [1, L2] [1, L2] = Inr [] \<and>
         CrossAttentionModel_forward 384 [1, L1] [1, L1] [1, L2] [1, L2] = Inr [] \<and>
         (B \<noteq> 1 \<longrightarrow>
            SentenceSimilarityModelOne_forward 384 [B, L1] [B, L1] [B, L2] [B, L2] = Inr [B] \<and>
            SiameseBERT_forward 384 [B, L1] [B, L1] [B, L2] [B, L2] = Inr [B] \<and>
            CrossAttentionModel_forward 384 [B, L1] [B, L1] [B, L2] [B, L2] = Inr [B])"
  using forward_shapes[OF assms, of 1] forward_shapes[OF assms, of B] by simp

theorem single_example_batch_gives_scalar_witness:
  "(0::nat) < 128 \<and>
   SentenceSimilarityModelOne_forward 384 [1, 128] [1, 128] [1, 128] [1, 128] = Inr [] \<and>
   SiameseBERT_forward 384 [1, 128] [1, 128] [1, 128] [1, 128] = Inr [] \<and>
   CrossAttentionModel_forward 384 [1, 128] [1, 128] [1, 128] [1, 128] = Inr [] \<and>
   SentenceSimilarityModelOne_forward 384 [8, 128] [8, 128] [8, 128] [8, 128] = Inr [8] \<and>
   [] \<noteq> [1::nat]"
  using single_example_batch_gives_scalar [of 128 128 8] by simp

end
